theory Spec2Isabelle
  imports Main "HOL-Library.AList"
begin

section \<open>Exceptions and API errors\<close>

text \<open>
  \<^verbatim>\<open>HttpError.error_details\<close> of the API client is either a text or a list of
  dictionaries; \<^verbatim>\<open>unpack_http_error\<close> indexes it with \<^verbatim>\<open>[0]["reason"]\<close>.
  A dictionary with string keys and values is an association list.
\<close>

datatype error_details = Details_Text string | Details_List "(string \<times> string) list list"

datatype http_error = Http_Error (error_details: error_details)

text \<open>The Python exceptions that the modelled code raises or lets through.\<close>

datatype exn =
    HttpError http_error
  | KeyError string
  | IndexError
  | TypeError
  | AttributeError
  | AssertionError string
  | FileNotFoundError string
  | OtherError string

text \<open>
  \<^verbatim>\<open>unpack_http_error\<close> (ytcollector.py): \<^verbatim>\<open>e.error_details[0]["reason"]\<close>.
  Indexing an empty text or list raises IndexError, indexing a character with a string
  raises TypeError, a dictionary without the key raises KeyError.
\<close>

definition unpack_http_error :: "http_error \<Rightarrow> exn + string" where
  "unpack_http_error e =
     (case error_details e of
        Details_Text s \<Rightarrow> (case s of [] \<Rightarrow> Inl IndexError | c # cs \<Rightarrow> Inl TypeError)
      | Details_List ds \<Rightarrow>
          (case ds of
             [] \<Rightarrow> Inl IndexError
           | element_error_dict # rest \<Rightarrow>
               (case map_of element_error_dict ''reason'' of
                  None \<Rightarrow> Inl (KeyError ''reason'')
                | Some reason \<Rightarrow> Inr reason)))"

section \<open>API responses and the pager's data\<close>

text \<open>
  A response page of a list endpoint: its items and, when there is a further page, the
  key \<^verbatim>\<open>nextPageToken\<close>. Items are comment threads (commentThreads.list) or
  comments (comments.list); of a comment's snippet only the text is kept.
\<close>

datatype comment = Comment (comment_id: string) (text_display: string)

datatype item =
    Thread_Item string string int comment
  | Comment_Item comment

record response =
  items :: "item list"
  nextPageToken :: "string option"

text \<open>\<^verbatim>\<open>DataClassPager\<close> (ytcollector.py).\<close>

record data_class_pager =
  responses :: "response list"
  next_page_token :: "string option"
  all_items_collected :: bool
  num_requests :: int

text \<open>Rows extracted from responses (the dictionaries of \<^verbatim>\<open>extract_data_comment\<close>).\<close>

record comment_data =
  cd_comment_id :: string
  cd_text :: string
  cd_thread_id :: string
  cd_video_id :: "string option"
  cd_total_reply_count :: "int option"

text \<open>A merged video table: of a dataframe only the column \<^verbatim>\<open>video_ids\<close> is kept.\<close>

datatype dataframe = DataFrame (video_ids_column: "string list")

text \<open>What a pickle file can hold.\<close>

datatype pickle =
    Pickle_Pager data_class_pager
  | Pickle_Replies "(string \<times> response list) list"
  | Pickle_Comments "(string \<times> comment_data list) list"
  | Pickle_Ids "string list"
  | Pickle_None
  | Pickle_Other string

text \<open>
  The lines written with \<^verbatim>\<open>print\<close>, by their variable parts: the rule of fifty
  dashes, the channel being collected, ``... done'', the channel without an upload
  playlist, the progress line of \<^verbatim>\<open>save_comments\<close> (counter, number of videos,
  channel), the id put back by \<^verbatim>\<open>put_videoid_in_buffer_back\<close>, and the three
  totals of the restore.
\<close>

datatype message =
    Msg_Rule
  | Msg_Collecting string
  | Msg_Done
  | Msg_No_Upload_Playlist string
  | Msg_Comments_Collected "int option" nat string
  | Msg_Put_Back string
  | Msg_Restore_Totals nat nat nat

section \<open>The environment of a run\<close>

text \<open>
  Everything outside the collector object: the state of the remote API (\<open>world\<close>), the
  page requests issued so far (\<open>calls\<close>: item id, page token and what the request
  returned or raised), the files of the
  temporary folder by file name, the pickle files written to the raw-data folder in the
  order of writing (a file's content is its latest entry), the parquet files of the
  processed-data folder, the seconds passed to \<^verbatim>\<open>time.sleep\<close> by the error
  handler, the lines printed, and the current date as \<^verbatim>\<open>get_name\<close> formats it
  (taken as fixed during a run).
\<close>

record 'w env =
  world :: 'w
  calls :: "(string \<times> string option \<times> (exn + response)) list"
  tmp_files :: "string \<rightharpoonup> pickle"
  raw_writes :: "(string \<times> pickle) list"
  proc_files :: "string \<rightharpoonup> dataframe"
  sleeps :: "nat list"
  printed :: "message list"
  today :: string

text \<open>A pager function: one request to a list endpoint for an item and a page token.\<close>

type_synonym 'w pager_func = "string \<Rightarrow> string option \<Rightarrow> 'w \<Rightarrow> (exn + response) \<times> 'w"

definition call_pager ::
  "'w pager_func \<Rightarrow> string \<Rightarrow> string option \<Rightarrow> 'w env \<Rightarrow> (exn + response) \<times> 'w env" where
  "call_pager pager_func item_id page_token env =
     (case pager_func item_id page_token (world env) of
        (result, w) \<Rightarrow>
          (result, env\<lparr>world := w, calls := calls env @ [(item_id, page_token, result)]\<rparr>))"

section \<open>The checkpointed pager (ytcollector.py)\<close>

definition get_tmp_file :: "string \<Rightarrow> string" where
  "get_tmp_file item_id = ''temp-'' @ item_id @ ''.pkl''"

definition save_tmp_data :: "string \<Rightarrow> pickle \<Rightarrow> 'w env \<Rightarrow> 'w env" where
  "save_tmp_data item_id data env =
     env\<lparr>tmp_files := (tmp_files env)(get_tmp_file item_id \<mapsto> data)\<rparr>"

text \<open>
  \<^verbatim>\<open>init_pager\<close>: the checkpoint of the item when its file exists, else a new
  container. A file that holds something other than pager data makes the caller's first
  attribute access fail.
\<close>

definition init_pager :: "string \<Rightarrow> 'w env \<Rightarrow> exn + data_class_pager" where
  "init_pager item_id env =
     (case tmp_files env (get_tmp_file item_id) of
        None \<Rightarrow> Inr \<lparr>responses = [], next_page_token = None,
                      all_items_collected = False, num_requests = 0\<rparr>
      | Some (Pickle_Pager pager_data) \<Rightarrow> Inr pager_data
      | Some other \<Rightarrow> Inl AttributeError)"

text \<open>
  \<^verbatim>\<open>check_quota_exceeded_tmp\<close>: always re-raises the error; when its reason is
  \<^verbatim>\<open>quotaExceeded\<close> it writes the data as a checkpoint first.
\<close>

definition check_quota_exceeded_tmp ::
  "http_error \<Rightarrow> string \<Rightarrow> pickle \<Rightarrow> 'w env \<Rightarrow> exn \<times> 'w env" where
  "check_quota_exceeded_tmp e item_id data env =
     (case unpack_http_error e of
        Inl unpack_failure \<Rightarrow> (HttpError e, env)
      | Inr reason \<Rightarrow>
          if reason = ''quotaExceeded''
          then (HttpError e, save_tmp_data item_id data env)
          else (HttpError e, env))"

text \<open>
  The loop of \<^verbatim>\<open>query_all_items\<close>. It may page forever; not returning is \<open>None\<close>.
  Only an HttpError of the pager function is caught; any other exception leaves the loop
  as it is.
\<close>

partial_function (option) query_loop ::
  "'w pager_func \<Rightarrow> string \<Rightarrow> data_class_pager \<Rightarrow> 'w env
    \<Rightarrow> ((exn + response list) \<times> 'w env) option" where
  "query_loop pager_func item_id pager_data env =
     (if all_items_collected pager_data then Some (Inr (responses pager_data), env)
      else
        (case call_pager pager_func item_id (next_page_token pager_data) env of
           (Inl (HttpError e), env1) \<Rightarrow>
             (case check_quota_exceeded_tmp e item_id (Pickle_Pager pager_data) env1 of
                (raised, env2) \<Rightarrow> Some (Inl raised, env2))
         | (Inl other, env1) \<Rightarrow> Some (Inl other, env1)
         | (Inr response, env1) \<Rightarrow>
             (case nextPageToken response of
                Some token \<Rightarrow>
                  query_loop pager_func item_id
                    (pager_data\<lparr>responses := responses pager_data @ [response],
                       num_requests := num_requests pager_data + 1,
                       next_page_token := Some token\<rparr>) env1
              | None \<Rightarrow>
                  query_loop pager_func item_id
                    (pager_data\<lparr>responses := responses pager_data @ [response],
                       num_requests := num_requests pager_data + 1,
                       all_items_collected := True\<rparr>)
                    (save_tmp_data item_id
                       (Pickle_Pager
                          (pager_data\<lparr>responses := responses pager_data @ [response],
                             num_requests := num_requests pager_data + 1,
                             all_items_collected := True\<rparr>)) env1))))"

declare query_loop.simps [code]

definition query_all_items ::
  "string \<Rightarrow> 'w pager_func \<Rightarrow> 'w env \<Rightarrow> ((exn + response list) \<times> 'w env) option" where
  "query_all_items item_id pager_func env =
     (case init_pager item_id env of
        Inl raised \<Rightarrow> Some (Inl raised, env)
      | Inr pager_data \<Rightarrow> query_loop pager_func item_id pager_data env)"

section \<open>Extracting comment data and collecting replies (ytcollector.py)\<close>

text \<open>
  \<^verbatim>\<open>get_comment_thread_data\<close>: one row per thread item, from its top-level comment.
  A comment item has no key \<^verbatim>\<open>topLevelComment\<close>.
\<close>

fun get_comment_thread_data_items :: "item list \<Rightarrow> exn + comment_data list" where
  "get_comment_thread_data_items [] = Inr []"
| "get_comment_thread_data_items (Thread_Item thread_id video_id total_reply_count c # rest) =
     (case get_comment_thread_data_items rest of
        Inl raised \<Rightarrow> Inl raised
      | Inr data_thread \<Rightarrow>
          Inr (\<lparr>cd_comment_id = comment_id c, cd_text = text_display c,
                cd_thread_id = thread_id, cd_video_id = Some video_id,
                cd_total_reply_count = Some total_reply_count\<rparr> # data_thread))"
| "get_comment_thread_data_items (Comment_Item c # rest) = Inl (KeyError ''topLevelComment'')"

definition get_comment_thread_data :: "response \<Rightarrow> exn + comment_data list" where
  "get_comment_thread_data response_comment_thread =
     get_comment_thread_data_items (items response_comment_thread)"

fun get_multiple_comment_thread_data :: "response list \<Rightarrow> exn + comment_data list" where
  "get_multiple_comment_thread_data [] = Inr []"
| "get_multiple_comment_thread_data (response_comment_thread # rest) =
     (case get_comment_thread_data response_comment_thread of
        Inl raised \<Rightarrow> Inl raised
      | Inr first \<Rightarrow>
          (case get_multiple_comment_thread_data rest of
             Inl raised \<Rightarrow> Inl raised
           | Inr data_thread \<Rightarrow> Inr (first @ data_thread)))"

text \<open>
  \<^verbatim>\<open>get_data_reply_comment\<close>: one row per comment of a page of replies. The snippet
  of a thread item has no key \<^verbatim>\<open>textDisplay\<close>.
\<close>

fun get_data_reply_comment_items :: "item list \<Rightarrow> string \<Rightarrow> exn + comment_data list" where
  "get_data_reply_comment_items [] thread_id = Inr []"
| "get_data_reply_comment_items (Comment_Item c # rest) thread_id =
     (case get_data_reply_comment_items rest thread_id of
        Inl raised \<Rightarrow> Inl raised
      | Inr comments \<Rightarrow>
          Inr (\<lparr>cd_comment_id = comment_id c, cd_text = text_display c,
                cd_thread_id = thread_id, cd_video_id = None,
                cd_total_reply_count = None\<rparr> # comments))"
| "get_data_reply_comment_items (Thread_Item t v n c # rest) thread_id =
     Inl (KeyError ''textDisplay'')"

definition get_data_reply_comment :: "response \<Rightarrow> string \<Rightarrow> exn + comment_data list" where
  "get_data_reply_comment comment_response thread_id =
     get_data_reply_comment_items (items comment_response) thread_id"

fun get_data_reply_comments :: "response list \<Rightarrow> string \<Rightarrow> exn + comment_data list" where
  "get_data_reply_comments [] thread_id = Inr []"
| "get_data_reply_comments (response # rest) thread_id =
     (case get_data_reply_comment response thread_id of
        Inl raised \<Rightarrow> Inl raised
      | Inr first \<Rightarrow>
          (case get_data_reply_comments rest thread_id of
             Inl raised \<Rightarrow> Inl raised
           | Inr data_replies \<Rightarrow> Inr (first @ data_replies)))"

fun get_comment_reply_data :: "(string \<times> response list) list \<Rightarrow> exn + comment_data list" where
  "get_comment_reply_data [] = Inr []"
| "get_comment_reply_data ((thread_id, thread_responses) # rest) =
     (case get_data_reply_comments thread_responses thread_id of
        Inl raised \<Rightarrow> Inl raised
      | Inr first \<Rightarrow>
          (case get_comment_reply_data rest of
             Inl raised \<Rightarrow> Inl raised
           | Inr data_replies \<Rightarrow> Inr (first @ data_replies)))"

text \<open>
  \<^verbatim>\<open>init_replies_dict\<close>: the checkpoint of the video's replies when its file exists,
  else a new dictionary.
\<close>

definition init_replies_dict :: "string \<Rightarrow> 'w env \<Rightarrow> exn + (string \<times> response list) list" where
  "init_replies_dict video_id env =
     (case tmp_files env (get_tmp_file (video_id @ ''-replies'')) of
        None \<Rightarrow> Inr []
      | Some (Pickle_Replies comment_thread_responses) \<Rightarrow> Inr comment_thread_responses
      | Some other \<Rightarrow> Inl TypeError)"

text \<open>
  The loop of \<^verbatim>\<open>get_replies_comment_thread\<close> over the rows of the top-level
  comments. A thread is queried only when it reports replies and is not yet in the
  dictionary; an HttpError of the query goes through
  \<^verbatim>\<open>check_quota_exceeded_tmp\<close> with the dictionary collected so far.
\<close>

fun replies_loop ::
  "'w pager_func \<Rightarrow> string \<Rightarrow> comment_data list \<Rightarrow> (string \<times> response list) list \<Rightarrow> 'w env
    \<Rightarrow> ((exn + (string \<times> response list) list) \<times> 'w env) option" where
  "replies_loop pager_func video_id [] comment_thread_responses env =
     Some (Inr comment_thread_responses, env)"
| "replies_loop pager_func video_id (data_top_level # rest) comment_thread_responses env =
     (case cd_total_reply_count data_top_level of
        None \<Rightarrow> Some (Inl (KeyError ''total_reply_count''), env)
      | Some reply_count \<Rightarrow>
          if reply_count > 0 then
            (if cd_thread_id data_top_level \<in> fst ` set comment_thread_responses
             then replies_loop pager_func video_id rest comment_thread_responses env
             else
               (case query_all_items (cd_thread_id data_top_level) pager_func env of
                  None \<Rightarrow> None
                | Some (Inl (HttpError e), env1) \<Rightarrow>
                    (case check_quota_exceeded_tmp e (video_id @ ''-replies'')
                            (Pickle_Replies comment_thread_responses) env1 of
                       (raised, env2) \<Rightarrow> Some (Inl raised, env2))
                | Some (Inl other, env1) \<Rightarrow> Some (Inl other, env1)
                | Some (Inr thread_responses, env1) \<Rightarrow>
                    replies_loop pager_func video_id rest
                      (comment_thread_responses @
                         [(cd_thread_id data_top_level, thread_responses)]) env1))
          else replies_loop pager_func video_id rest comment_thread_responses env)"

definition get_replies_comment_thread ::
  "string \<Rightarrow> comment_data list \<Rightarrow> 'w pager_func \<Rightarrow> 'w env
    \<Rightarrow> ((exn + (string \<times> response list) list) \<times> 'w env) option" where
  "get_replies_comment_thread video_id data_thread pager_func env =
     (case init_replies_dict video_id env of
        Inl raised \<Rightarrow> Some (Inl raised, env)
      | Inr comment_thread_responses \<Rightarrow>
          replies_loop pager_func video_id data_thread comment_thread_responses env)"

section \<open>The collector object (ytcollector_class.py)\<close>

text \<open>
  The response of channels.list as far as \<^verbatim>\<open>get_upload_playlist_id\<close> reads it:
  \<^verbatim>\<open>["items"][0]["contentDetails"]["relatedPlaylists"]["uploads"]\<close>, every key
  possibly absent.
\<close>

datatype content_details = Content_Details (relatedPlaylists: "(string \<times> string) list option")

datatype channel_item = Channel_Item (contentDetails: "content_details option")

datatype channel_response = Channel_Response (channel_items: "channel_item list option")

definition get_upload_playlist_id :: "channel_response \<Rightarrow> exn + string" where
  "get_upload_playlist_id channel_response =
     (case channel_items channel_response of
        None \<Rightarrow> Inl (KeyError ''items'')
      | Some [] \<Rightarrow> Inl IndexError
      | Some (first_item # rest) \<Rightarrow>
          (case contentDetails first_item of
             None \<Rightarrow> Inl (KeyError ''contentDetails'')
           | Some content_details \<Rightarrow>
               (case relatedPlaylists content_details of
                  None \<Rightarrow> Inl (KeyError ''relatedPlaylists'')
                | Some related \<Rightarrow>
                    (case map_of related ''uploads'' of
                       None \<Rightarrow> Inl (KeyError ''uploads'')
                     | Some upload_playlist_id \<Rightarrow> Inr upload_playlist_id))))"

text \<open>
  The attributes of \<^verbatim>\<open>YtEntityData\<close> that the modelled methods read or write. An
  attribute is \<open>None\<close> when it holds Python's \<^verbatim>\<open>None\<close> (as after
  \<^verbatim>\<open>setup_attributes\<close>) or, for \<open>video_ids\<close>, \<open>videos_ids_to_collect\<close> and
  \<open>collected_video_ids\<close>, when it has not been created yet. Dictionaries keep the order
  of insertion. The counter \<^verbatim>\<open>self.i\<close> is the field \<open>yt_i\<close>.
\<close>

record yt_entity_data =
  current_api_key :: string
  channels :: "(string \<times> string) list"
  channel_response :: "channel_response option"
  upload_responses :: "pickle option"
  vid_ids :: "string list option"
  videos_responses :: "pickle option"
  df_upload_playlist :: "dataframe option"
  df_m :: "dataframe option"
  video_ids :: "string list option"
  videos_ids_to_collect :: "string list option"
  collected_video_ids :: "string list option"
  responses_replies :: "(string \<times> comment_data list) list option"
  responses_toplevel :: "(string \<times> comment_data list) list option"
  yt_i :: "int option"
  temp_id_storage :: "string list option"
  videos_with_comments_disabled :: "string list option"
  comment_threads :: "response list option"
  comment_thread_responses :: "(string \<times> response list) list option"

text \<open>\<^verbatim>\<open>__init__\<close> with \<^verbatim>\<open>setup_attributes\<close>: a new object.\<close>

definition new_yt_entity_data :: "string \<Rightarrow> (string \<times> string) list \<Rightarrow> yt_entity_data" where
  "new_yt_entity_data api_key channel_dict =
     \<lparr>current_api_key = api_key, channels = channel_dict, channel_response = None,
      upload_responses = None, vid_ids = None, videos_responses = None,
      df_upload_playlist = None, df_m = None, video_ids = None,
      videos_ids_to_collect = None, collected_video_ids = None,
      responses_replies = None, responses_toplevel = None, yt_i = None,
      temp_id_storage = None, videos_with_comments_disabled = None,
      comment_threads = None, comment_thread_responses = None\<rparr>"

text \<open>
  What the methods use from outside the repository, and the two stretches of the
  repository that are not modelled:
  \<^item> \<open>channels_list\<close>, \<open>comment_threads_list\<close>, \<open>comments_list\<close>: the requests
    \<^verbatim>\<open>channels().list\<close>, \<^verbatim>\<open>commentThreads().list\<close> and
    \<^verbatim>\<open>comments().list\<close> of the API client, executed;
  \<^item> \<open>uploads_phase\<close>: \<^verbatim>\<open>collect_upload_playlist\<close> from the call of
    \<^verbatim>\<open>query_uploads_date\<close> to its end (listing the uploads, saving the responses
    and the table, setting \<^verbatim>\<open>vid_ids\<close>), given the playlist id and the channel;
  \<^item> \<open>videos_phase\<close>: \<^verbatim>\<open>collect_videos\<close> up to the call of
    \<^verbatim>\<open>get_videoids_to_collect\<close> (querying the videos, merging and saving the
    tables, setting \<^verbatim>\<open>df_m\<close>);
  \<^item> \<open>glob\<close>: \<^verbatim>\<open>Path.glob\<close>, the paths in a folder that match a pattern, in the
    order the file system lists them;
  \<^item> \<open>re_date_search\<close> and \<open>pd_timestamp\<close>: the search of \<^verbatim>\<open>RE_DATE\<close> in a file
    name and \<^verbatim>\<open>pd.Timestamp\<close> of the match.
  Every theorem below holds for all values of these parameters.
\<close>

record 'w external =
  channels_list :: "string \<Rightarrow> 'w \<Rightarrow> (exn + channel_response) \<times> 'w"
  comment_threads_list :: "'w pager_func"
  comments_list :: "'w pager_func"
  uploads_phase ::
    "string \<Rightarrow> string \<Rightarrow> yt_entity_data \<Rightarrow> 'w env
      \<Rightarrow> ((exn + unit) \<times> yt_entity_data \<times> 'w env) option"
  videos_phase ::
    "string \<Rightarrow> yt_entity_data \<Rightarrow> 'w env \<Rightarrow> ((exn + unit) \<times> yt_entity_data \<times> 'w env) option"
  glob :: "'w env \<Rightarrow> string \<Rightarrow> string \<Rightarrow> string list"
  re_date_search :: "string \<Rightarrow> string option"
  pd_timestamp :: "string \<Rightarrow> exn + int"

subsection \<open>The work list and its buffer\<close>

text \<open>
  \<^verbatim>\<open>get_videoids_to_collect\<close>: the ids of the merged table, reversed; a copy of them
  as the work list; nothing collected.
\<close>

definition get_videoids_to_collect :: "yt_entity_data \<Rightarrow> (exn + unit) \<times> yt_entity_data" where
  "get_videoids_to_collect yt =
     (case df_m yt of
        None \<Rightarrow> (Inl AttributeError, yt)
      | Some df \<Rightarrow>
          (Inr (), yt\<lparr>video_ids := Some (rev (video_ids_column df)),
                      videos_ids_to_collect := Some (rev (video_ids_column df)),
                      collected_video_ids := Some []\<rparr>))"

definition setup_comment_collector :: "yt_entity_data \<Rightarrow> (exn + unit) \<times> yt_entity_data" where
  "setup_comment_collector yt =
     (case collected_video_ids yt of
        None \<Rightarrow> (Inl AttributeError, yt\<lparr>responses_replies := Some [], responses_toplevel := Some []\<rparr>)
      | Some collected \<Rightarrow>
          (Inr (), yt\<lparr>responses_replies := Some [], responses_toplevel := Some [],
                      yt_i := Some (int (length collected)), temp_id_storage := Some [],
                      videos_with_comments_disabled := Some []\<rparr>))"

text \<open>
  \<^verbatim>\<open>get_video_id_to_collect\<close>: \<^verbatim>\<open>pop()\<close> takes the last id of the work list;
  the id is appended to the buffer.
\<close>

definition get_video_id_to_collect :: "yt_entity_data \<Rightarrow> (exn + string) \<times> yt_entity_data" where
  "get_video_id_to_collect yt =
     (case videos_ids_to_collect yt of
        None \<Rightarrow> (Inl AttributeError, yt)
      | Some [] \<Rightarrow> (Inl IndexError, yt)
      | Some (v # vs) \<Rightarrow>
          (case temp_id_storage (yt\<lparr>videos_ids_to_collect := Some (butlast (v # vs))\<rparr>) of
             None \<Rightarrow> (Inl AttributeError, yt\<lparr>videos_ids_to_collect := Some (butlast (v # vs))\<rparr>)
           | Some buffer \<Rightarrow>
               (Inr (last (v # vs)),
                yt\<lparr>videos_ids_to_collect := Some (butlast (v # vs)),
                    temp_id_storage := Some (buffer @ [last (v # vs)])\<rparr>)))"

text \<open>
  \<^verbatim>\<open>put_videoid_in_buffer_back\<close>: \<^verbatim>\<open>hasattr\<close> holds for every object (the
  attribute is created by \<^verbatim>\<open>setup_attributes\<close>), so the length of the buffer is
  taken even when the buffer is \<^verbatim>\<open>None\<close>, which raises TypeError.
\<close>

definition put_videoid_in_buffer_back ::
  "yt_entity_data \<Rightarrow> 'w env \<Rightarrow> (exn + unit) \<times> yt_entity_data \<times> 'w env" where
  "put_videoid_in_buffer_back yt env =
     (case temp_id_storage yt of
        None \<Rightarrow> (Inl TypeError, yt, env)
      | Some buffer \<Rightarrow>
          if length buffer > 0 then
            (case videos_ids_to_collect yt of
               None \<Rightarrow> (Inl AttributeError, yt\<lparr>temp_id_storage := Some (butlast buffer)\<rparr>, env)
             | Some ids \<Rightarrow>
                 (Inr (),
                  yt\<lparr>temp_id_storage := Some (butlast buffer),
                      videos_ids_to_collect := Some (ids @ [last buffer])\<rparr>,
                  env\<lparr>printed := printed env @ [Msg_Put_Back (last buffer)]\<rparr>))
          else (Inr (), yt, env))"

subsection \<open>The retry decorator and its error handler\<close>

text \<open>
  \<^verbatim>\<open>handle_http_error\<close>: the buffered id goes back to the work list first; then the
  three reasons that end the run raise AssertionError, every other reason sleeps five
  seconds, and a reason that cannot be unpacked sleeps two.
\<close>

definition handle_http_error ::
  "http_error \<Rightarrow> yt_entity_data \<Rightarrow> 'w env \<Rightarrow> (exn + unit) \<times> yt_entity_data \<times> 'w env" where
  "handle_http_error e yt env =
     (case put_videoid_in_buffer_back yt env of
        (Inl raised, yt1, env1) \<Rightarrow> (Inl raised, yt1, env1)
      | (Inr u, yt1, env1) \<Rightarrow>
          (case unpack_http_error e of
             Inl unpack_failure \<Rightarrow> (Inr (), yt1, env1\<lparr>sleeps := sleeps env1 @ [2]\<rparr>)
           | Inr reason \<Rightarrow>
               if reason = ''quotaExceeded'' then
                 (Inl (AssertionError ''Quota limit exceeded. Wait until quotaLimit expires.''),
                  yt1, env1)
               else if reason = ''forbidden'' then
                 (Inl (AssertionError
                         (''API key `'' @ current_api_key yt1 @ ''` is suspended. '')),
                  yt1, env1)
               else if reason = ''accessNotConfigured'' then
                 (Inl (AssertionError ''API key not activated, activate it at google cloud''),
                  yt1, env1)
               else (Inr (), yt1, env1\<lparr>sleeps := sleeps env1 @ [5]\<rparr>)))"

definition RETRY_TIMES :: nat where
  "RETRY_TIMES = 10"

text \<open>
  The wrapper that \<^verbatim>\<open>error_api_method\<close> puts around a method. Only HttpError is
  caught. When the loop ends because no attempt is left, the wrapper returns without a
  value: \<open>Inr None\<close>; \<open>Inr (Some v)\<close> is the return of the method itself.
\<close>

function error_api_method_loop ::
  "nat \<Rightarrow> nat \<Rightarrow> (yt_entity_data \<Rightarrow> 'w env \<Rightarrow> ((exn + 'a) \<times> yt_entity_data \<times> 'w env) option)
    \<Rightarrow> yt_entity_data \<Rightarrow> 'w env \<Rightarrow> ((exn + 'a option) \<times> yt_entity_data \<times> 'w env) option" where
  "error_api_method_loop max_times attempt func yt env =
     (if attempt < max_times then
        (case func yt env of
           None \<Rightarrow> None
         | Some (Inr v, yt1, env1) \<Rightarrow> Some (Inr (Some v), yt1, env1)
         | Some (Inl (HttpError e), yt1, env1) \<Rightarrow>
             (case handle_http_error e yt1 env1 of
                (Inl raised, yt2, env2) \<Rightarrow> Some (Inl raised, yt2, env2)
              | (Inr u, yt2, env2) \<Rightarrow> error_api_method_loop max_times (Suc attempt) func yt2 env2)
         | Some (Inl other, yt1, env1) \<Rightarrow> Some (Inl other, yt1, env1))
      else Some (Inr None, yt, env))"
  by pat_completeness auto
termination
  by (relation "measure (\<lambda>(max_times, attempt, func, yt, env). max_times - attempt)") auto

declare error_api_method_loop.simps [simp del]

definition error_api_method ::
  "nat \<Rightarrow> (yt_entity_data \<Rightarrow> 'w env \<Rightarrow> ((exn + 'a) \<times> yt_entity_data \<times> 'w env) option)
    \<Rightarrow> yt_entity_data \<Rightarrow> 'w env \<Rightarrow> ((exn + 'a option) \<times> yt_entity_data \<times> 'w env) option" where
  "error_api_method max_times func yt env = error_api_method_loop max_times 0 func yt env"

subsection \<open>Saving the collected comments (data_utils.py)\<close>

text \<open>
  \<^verbatim>\<open>get_file_response\<close> with \<^verbatim>\<open>get_name\<close>: the path of a pickle file in the
  raw-data folder, \<^verbatim>\<open>raw/<folder>/<name>-<date>.pkl\<close>.
\<close>

definition get_file_response :: "string \<Rightarrow> string \<Rightarrow> 'w env \<Rightarrow> string" where
  "get_file_response name folder env =
     ''raw/'' @ folder @ ''/'' @ name @ ''-'' @ today env @ ''.pkl''"

definition load_pickle_file :: "'w env \<Rightarrow> string \<Rightarrow> pickle option" where
  "load_pickle_file env file = map_of (rev (raw_writes env)) file"

definition save_pickle :: "string \<Rightarrow> pickle \<Rightarrow> 'w env \<Rightarrow> 'w env" where
  "save_pickle file data env = env\<lparr>raw_writes := raw_writes env @ [(file, data)]\<rparr>"

text \<open>
  \<^verbatim>\<open>check_comments_file_exists\<close>: the dictionary already saved, or a new one. The
  model's dictionaries are typed; a file that holds something else is a TypeError here.
\<close>

definition check_comments_file_exists ::
  "string \<Rightarrow> 'w env \<Rightarrow> exn + (string \<times> comment_data list) list" where
  "check_comments_file_exists file env =
     (case load_pickle_file env file of
        None \<Rightarrow> Inr []
      | Some (Pickle_Comments response) \<Rightarrow> Inr response
      | Some other \<Rightarrow> Inl TypeError)"

text \<open>The loop of \<^verbatim>\<open>save_response_comments\<close>: only videos not yet in the file are inserted.\<close>

fun insert_new_collected ::
  "(string \<times> comment_data list) list \<Rightarrow> (string \<times> comment_data list) list
    \<Rightarrow> (string \<times> comment_data list) list" where
  "insert_new_collected [] response_comments = response_comments"
| "insert_new_collected ((video_id, response) # rest) response_comments =
     (if video_id \<notin> fst ` set response_comments
      then insert_new_collected rest (response_comments @ [(video_id, response)])
      else insert_new_collected rest response_comments)"

definition save_response_comments ::
  "(string \<times> comment_data list) list option \<Rightarrow> string \<Rightarrow> string \<Rightarrow> 'w env
    \<Rightarrow> (exn + unit) \<times> 'w env" where
  "save_response_comments collected name folder env =
     (case check_comments_file_exists (get_file_response name folder env) env of
        Inl raised \<Rightarrow> (Inl raised, env)
      | Inr response_comments \<Rightarrow>
          (case collected of
             None \<Rightarrow> (Inl TypeError, env)
           | Some collected_responses \<Rightarrow>
               (Inr (),
                save_pickle (get_file_response name folder env)
                  (Pickle_Comments (insert_new_collected collected_responses response_comments))
                  env)))"

definition save_videos_with_disabled_comments ::
  "string list option \<Rightarrow> string \<Rightarrow> string \<Rightarrow> 'w env \<Rightarrow> 'w env" where
  "save_videos_with_disabled_comments ids name folder env =
     save_pickle (get_file_response name folder env)
       (case ids of None \<Rightarrow> Pickle_None | Some id_list \<Rightarrow> Pickle_Ids id_list) env"

text \<open>
  \<^verbatim>\<open>save_comments\<close>: the progress line, then the top-level comments, the replies and
  the ids with disabled comments are written.
\<close>

definition save_comments ::
  "string \<Rightarrow> yt_entity_data \<Rightarrow> 'w env \<Rightarrow> (exn + unit) \<times> 'w env" where
  "save_comments channel yt env =
     (case video_ids yt of
        None \<Rightarrow> (Inl AttributeError, env)
      | Some all_ids \<Rightarrow>
          (case save_response_comments (responses_toplevel yt) (channel @ ''-toplevelcomments'')
                  channel
                  (env\<lparr>printed := printed env @
                         [Msg_Comments_Collected (yt_i yt) (length all_ids) channel]\<rparr>) of
             (Inl raised, env1) \<Rightarrow> (Inl raised, env1)
           | (Inr u, env1) \<Rightarrow>
               (case save_response_comments (responses_replies yt) (channel @ ''-replies'')
                       channel env1 of
                  (Inl raised, env2) \<Rightarrow> (Inl raised, env2)
                | (Inr u2, env2) \<Rightarrow>
                    (Inr (),
                     save_videos_with_disabled_comments (videos_with_comments_disabled yt)
                       (channel @ ''-disabled-comments-videoids'') channel env2))))"

text \<open>\<^verbatim>\<open>flush_all_tmp_storage\<close>: every file of the temporary folder is removed.\<close>

definition flush_all_tmp_storage :: "'w env \<Rightarrow> 'w env" where
  "flush_all_tmp_storage env = env\<lparr>tmp_files := Map.empty\<rparr>"

subsection \<open>Collecting the comments of one video\<close>

definition comments_pager :: "'w external \<Rightarrow> 'w pager_func" where
  "comments_pager ext = comment_threads_list ext"

definition replies_pager :: "'w external \<Rightarrow> 'w pager_func" where
  "replies_pager ext = comments_list ext"

definition collect_toplevel_comments ::
  "'w external \<Rightarrow> string \<Rightarrow> yt_entity_data \<Rightarrow> 'w env
    \<Rightarrow> ((exn + unit) \<times> yt_entity_data \<times> 'w env) option" where
  "collect_toplevel_comments ext video_id yt env =
     (case query_all_items video_id (comments_pager ext) env of
        None \<Rightarrow> None
      | Some (Inl raised, env1) \<Rightarrow> Some (Inl raised, yt, env1)
      | Some (Inr threads, env1) \<Rightarrow>
          (case get_multiple_comment_thread_data threads of
             Inl raised \<Rightarrow> Some (Inl raised, yt\<lparr>comment_threads := Some threads\<rparr>, env1)
           | Inr data_thread \<Rightarrow>
               (case responses_toplevel yt of
                  None \<Rightarrow> Some (Inl TypeError, yt\<lparr>comment_threads := Some threads\<rparr>, env1)
                | Some toplevel \<Rightarrow>
                    Some (Inr (),
                          yt\<lparr>comment_threads := Some threads,
                              responses_toplevel :=
                                Some (AList.update video_id data_thread toplevel)\<rparr>,
                          env1))))"

definition collect_comment_replies ::
  "'w external \<Rightarrow> string \<Rightarrow> yt_entity_data \<Rightarrow> 'w env
    \<Rightarrow> ((exn + unit) \<times> yt_entity_data \<times> 'w env) option" where
  "collect_comment_replies ext video_id yt env =
     (case responses_toplevel yt of
        None \<Rightarrow> Some (Inl TypeError, yt, env)
      | Some toplevel \<Rightarrow>
          (case map_of toplevel video_id of
             None \<Rightarrow> Some (Inl (KeyError video_id), yt, env)
           | Some data_thread \<Rightarrow>
               if data_thread \<noteq> [] then
                 (case get_replies_comment_thread video_id data_thread (replies_pager ext) env of
                    None \<Rightarrow> None
                  | Some (Inl raised, env1) \<Rightarrow> Some (Inl raised, yt, env1)
                  | Some (Inr thread_responses, env1) \<Rightarrow>
                      (case get_comment_reply_data thread_responses of
                         Inl raised \<Rightarrow>
                           Some (Inl raised,
                                 yt\<lparr>comment_thread_responses := Some thread_responses\<rparr>, env1)
                       | Inr data_replies \<Rightarrow>
                           (case responses_replies yt of
                              None \<Rightarrow>
                                Some (Inl TypeError,
                                      yt\<lparr>comment_thread_responses := Some thread_responses\<rparr>,
                                      env1)
                            | Some replies \<Rightarrow>
                                Some (Inr (),
                                      yt\<lparr>comment_thread_responses := Some thread_responses,
                                          responses_replies :=
                                            Some (AList.update video_id data_replies replies)\<rparr>,
                                      env1))))
               else Some (Inr (), yt, env)))"

definition collect_comments_video ::
  "'w external \<Rightarrow> string \<Rightarrow> yt_entity_data \<Rightarrow> 'w env
    \<Rightarrow> ((exn + unit) \<times> yt_entity_data \<times> 'w env) option" where
  "collect_comments_video ext video_id yt env =
     (case collect_toplevel_comments ext video_id yt env of
        None \<Rightarrow> None
      | Some (Inl raised, yt1, env1) \<Rightarrow> Some (Inl raised, yt1, env1)
      | Some (Inr u, yt1, env1) \<Rightarrow> collect_comment_replies ext video_id yt1 env1)"

text \<open>
  \<^verbatim>\<open>handle_disabled_comments_error\<close>: an HttpError with the reason
  \<^verbatim>\<open>commentsDisabled\<close> ends here, with the video id appended to the list of videos
  with disabled comments; every other HttpError is raised again.
\<close>

definition handle_disabled_comments_error ::
  "http_error \<Rightarrow> string \<Rightarrow> yt_entity_data \<Rightarrow> (exn + unit) \<times> yt_entity_data" where
  "handle_disabled_comments_error e video_id yt =
     (case unpack_http_error e of
        Inl unpack_failure \<Rightarrow> (Inl (HttpError e), yt)
      | Inr reason \<Rightarrow>
          if reason = ''commentsDisabled'' then
            (case videos_with_comments_disabled yt of
               None \<Rightarrow> (Inl AttributeError, yt)
             | Some disabled \<Rightarrow>
                 (Inr (), yt\<lparr>videos_with_comments_disabled := Some (disabled @ [video_id])\<rparr>))
          else (Inl (HttpError e), yt))"

definition safe_collect_comments_video ::
  "'w external \<Rightarrow> string \<Rightarrow> yt_entity_data \<Rightarrow> 'w env
    \<Rightarrow> ((exn + unit) \<times> yt_entity_data \<times> 'w env) option" where
  "safe_collect_comments_video ext video_id yt env =
     (case collect_comments_video ext video_id yt env of
        None \<Rightarrow> None
      | Some (Inl (HttpError e), yt1, env1) \<Rightarrow>
          (case handle_disabled_comments_error e video_id yt1 of
             (outcome, yt2) \<Rightarrow> Some (outcome, yt2, env1))
      | Some (Inl other, yt1, env1) \<Rightarrow> Some (Inl other, yt1, env1)
      | Some (Inr u, yt1, env1) \<Rightarrow> Some (Inr (), yt1, env1))"

subsection \<open>The loop over the videos of a channel\<close>

text \<open>
  \<^verbatim>\<open>bookkeeping_comments\<close>: when the counter is a multiple of fifty the comments are
  saved and the temporary folder is emptied; then the video id is appended to the
  collected ids, the buffer loses its last entry and the counter goes up by one.
\<close>

definition bookkeeping_comments ::
  "string \<Rightarrow> string \<Rightarrow> yt_entity_data \<Rightarrow> 'w env \<Rightarrow> (exn + unit) \<times> yt_entity_data \<times> 'w env" where
  "bookkeeping_comments channel video_id yt env =
     (case yt_i yt of
        None \<Rightarrow> (Inl TypeError, yt, env)
      | Some n \<Rightarrow>
          (case (if n mod 50 = 0
                 then (case save_comments channel yt env of
                         (Inl raised, env1) \<Rightarrow> (Inl raised, env1)
                       | (Inr u, env1) \<Rightarrow> (Inr (), flush_all_tmp_storage env1))
                 else (Inr (), env)) of
             (Inl raised, env2) \<Rightarrow> (Inl raised, yt, env2)
           | (Inr u, env2) \<Rightarrow>
               (case collected_video_ids yt of
                  None \<Rightarrow> (Inl AttributeError, yt, env2)
                | Some collected \<Rightarrow>
                    (case temp_id_storage yt of
                       None \<Rightarrow>
                         (Inl AttributeError,
                          yt\<lparr>collected_video_ids := Some (collected @ [video_id])\<rparr>, env2)
                     | Some [] \<Rightarrow>
                         (Inl IndexError,
                          yt\<lparr>collected_video_ids := Some (collected @ [video_id])\<rparr>, env2)
                     | Some (b # bs) \<Rightarrow>
                         (Inr (),
                          yt\<lparr>collected_video_ids := Some (collected @ [video_id]),
                              temp_id_storage := Some (butlast (b # bs)),
                              yt_i := Some (n + 1)\<rparr>,
                          env2)))))"

text \<open>
  The \<^verbatim>\<open>while\<close> loop of \<^verbatim>\<open>collect_comments\<close>. Collecting one video may page
  forever; not returning is \<open>None\<close>.
\<close>

partial_function (option) collect_comments_loop ::
  "'w external \<Rightarrow> string \<Rightarrow> yt_entity_data \<Rightarrow> 'w env
    \<Rightarrow> ((exn + unit) \<times> yt_entity_data \<times> 'w env) option" where
  "collect_comments_loop ext channel yt env =
     (case videos_ids_to_collect yt of
        None \<Rightarrow> Some (Inl AttributeError, yt, env)
      | Some [] \<Rightarrow> Some (Inr (), yt, env)
      | Some (v # vs) \<Rightarrow>
          (case get_video_id_to_collect yt of
             (Inl raised, yt1) \<Rightarrow> Some (Inl raised, yt1, env)
           | (Inr video_id, yt1) \<Rightarrow>
               (case safe_collect_comments_video ext video_id yt1 env of
                  None \<Rightarrow> None
                | Some (Inl raised, yt2, env2) \<Rightarrow> Some (Inl raised, yt2, env2)
                | Some (Inr u, yt2, env2) \<Rightarrow>
                    (case bookkeeping_comments channel video_id yt2 env2 of
                       (Inl raised, yt3, env3) \<Rightarrow> Some (Inl raised, yt3, env3)
                     | (Inr u3, yt3, env3) \<Rightarrow> collect_comments_loop ext channel yt3 env3))))"

declare collect_comments_loop.simps [code]

text \<open>The body of \<^verbatim>\<open>collect_comments\<close>: the loop, a last save and a last flush.\<close>

definition collect_comments_body ::
  "'w external \<Rightarrow> string \<Rightarrow> yt_entity_data \<Rightarrow> 'w env
    \<Rightarrow> ((exn + unit) \<times> yt_entity_data \<times> 'w env) option" where
  "collect_comments_body ext channel yt env =
     (case collect_comments_loop ext channel yt env of
        None \<Rightarrow> None
      | Some (Inl raised, yt1, env1) \<Rightarrow> Some (Inl raised, yt1, env1)
      | Some (Inr u, yt1, env1) \<Rightarrow>
          (case save_comments channel yt1 env1 of
             (Inl raised, env2) \<Rightarrow> Some (Inl raised, yt1, env2)
           | (Inr u2, env2) \<Rightarrow> Some (Inr (), yt1, flush_all_tmp_storage env2)))"

definition collect_comments ::
  "'w external \<Rightarrow> string \<Rightarrow> yt_entity_data \<Rightarrow> 'w env
    \<Rightarrow> ((exn + unit option) \<times> yt_entity_data \<times> 'w env) option" where
  "collect_comments ext channel =
     error_api_method RETRY_TIMES (collect_comments_body ext channel)"

subsection \<open>One channel, and all channels\<close>

text \<open>
  \<^verbatim>\<open>collect_upload_playlist\<close>: the channel is looked up, its upload playlist is
  resolved, and the uploads are listed (\<open>uploads_phase\<close>).
\<close>

definition search_channel_id ::
  "'w external \<Rightarrow> string \<Rightarrow> 'w env \<Rightarrow> (exn + channel_response) \<times> 'w env" where
  "search_channel_id ext channel_id env =
     (case channels_list ext channel_id (world env) of
        (result, w) \<Rightarrow> (result, env\<lparr>world := w\<rparr>))"

definition collect_upload_playlist_body ::
  "'w external \<Rightarrow> string \<Rightarrow> yt_entity_data \<Rightarrow> 'w env
    \<Rightarrow> ((exn + unit) \<times> yt_entity_data \<times> 'w env) option" where
  "collect_upload_playlist_body ext channel yt env =
     (case map_of (channels yt) channel of
        None \<Rightarrow> Some (Inl (KeyError channel), yt, env)
      | Some channel_id \<Rightarrow>
          (case search_channel_id ext channel_id env of
             (Inl raised, env1) \<Rightarrow> Some (Inl raised, yt, env1)
           | (Inr response, env1) \<Rightarrow>
               (case get_upload_playlist_id response of
                  Inl raised \<Rightarrow> Some (Inl raised, yt\<lparr>channel_response := Some response\<rparr>, env1)
                | Inr upload_playlist_id \<Rightarrow>
                    uploads_phase ext upload_playlist_id channel
                      (yt\<lparr>channel_response := Some response\<rparr>) env1)))"

definition collect_upload_playlist ::
  "'w external \<Rightarrow> string \<Rightarrow> yt_entity_data \<Rightarrow> 'w env
    \<Rightarrow> ((exn + unit option) \<times> yt_entity_data \<times> 'w env) option" where
  "collect_upload_playlist ext channel =
     error_api_method RETRY_TIMES (collect_upload_playlist_body ext channel)"

definition collect_videos_body ::
  "'w external \<Rightarrow> string \<Rightarrow> yt_entity_data \<Rightarrow> 'w env
    \<Rightarrow> ((exn + unit) \<times> yt_entity_data \<times> 'w env) option" where
  "collect_videos_body ext channel yt env =
     (case videos_phase ext channel yt env of
        None \<Rightarrow> None
      | Some (Inl raised, yt1, env1) \<Rightarrow> Some (Inl raised, yt1, env1)
      | Some (Inr u, yt1, env1) \<Rightarrow>
          (case get_videoids_to_collect yt1 of
             (outcome, yt2) \<Rightarrow> Some (outcome, yt2, env1)))"

definition collect_videos ::
  "'w external \<Rightarrow> string \<Rightarrow> yt_entity_data \<Rightarrow> 'w env
    \<Rightarrow> ((exn + unit option) \<times> yt_entity_data \<times> 'w env) option" where
  "collect_videos ext channel = error_api_method RETRY_TIMES (collect_videos_body ext channel)"

text \<open>
  \<^verbatim>\<open>collect_data_channel\<close>: a KeyError of the playlist step is caught and reported;
  the videos and the comments are collected only when that step raised nothing.
\<close>

definition collect_data_channel ::
  "'w external \<Rightarrow> string \<Rightarrow> yt_entity_data \<Rightarrow> 'w env
    \<Rightarrow> ((exn + unit) \<times> yt_entity_data \<times> 'w env) option" where
  "collect_data_channel ext channel yt env =
     (case collect_upload_playlist ext channel yt env of
        None \<Rightarrow> None
      | Some (Inl (KeyError k), yt1, env1) \<Rightarrow>
          Some (Inr (), yt1, env1\<lparr>printed := printed env1 @ [Msg_No_Upload_Playlist channel]\<rparr>)
      | Some (Inl other, yt1, env1) \<Rightarrow> Some (Inl other, yt1, env1)
      | Some (Inr u, yt1, env1) \<Rightarrow>
          (case collect_videos ext channel yt1 env1 of
             None \<Rightarrow> None
           | Some (Inl raised, yt2, env2) \<Rightarrow> Some (Inl raised, yt2, env2)
           | Some (Inr u2, yt2, env2) \<Rightarrow>
               (case setup_comment_collector yt2 of
                  (Inl raised, yt3) \<Rightarrow> Some (Inl raised, yt3, env2)
                | (Inr u3, yt3) \<Rightarrow>
                    (case collect_comments ext channel yt3 env2 of
                       None \<Rightarrow> None
                     | Some (Inl raised, yt4, env4) \<Rightarrow> Some (Inl raised, yt4, env4)
                     | Some (Inr u4, yt4, env4) \<Rightarrow> Some (Inr (), yt4, env4)))))"

fun collect_data_channels_loop ::
  "'w external \<Rightarrow> string list \<Rightarrow> yt_entity_data \<Rightarrow> 'w env
    \<Rightarrow> ((exn + unit) \<times> yt_entity_data \<times> 'w env) option" where
  "collect_data_channels_loop ext [] yt env = Some (Inr (), yt, env)"
| "collect_data_channels_loop ext (channel # rest) yt env =
     (case collect_data_channel ext channel yt
             (env\<lparr>printed := printed env @ [Msg_Rule, Msg_Collecting channel]\<rparr>) of
        None \<Rightarrow> None
      | Some (Inl raised, yt1, env1) \<Rightarrow> Some (Inl raised, yt1, env1)
      | Some (Inr u, yt1, env1) \<Rightarrow>
          collect_data_channels_loop ext rest yt1
            (env1\<lparr>printed := printed env1 @ [Msg_Done, Msg_Rule]\<rparr>))"

definition collect_data_channels ::
  "'w external \<Rightarrow> yt_entity_data \<Rightarrow> 'w env \<Rightarrow> ((exn + unit) \<times> yt_entity_data \<times> 'w env) option" where
  "collect_data_channels ext yt env =
     collect_data_channels_loop ext (map fst (channels yt)) yt env"

section \<open>Restoring from a checkpoint (ytcollector_class.py, proc_utils.py)\<close>

text \<open>\<^verbatim>\<open>Path.name\<close>: what follows the last slash.\<close>

definition file_name :: "string \<Rightarrow> string" where
  "file_name file = rev (takeWhile (\<lambda>c. c \<noteq> CHR ''/'') (rev file))"

definition get_file_date :: "'w external \<Rightarrow> string \<Rightarrow> exn + int" where
  "get_file_date ext file =
     (case re_date_search ext (file_name file) of
        None \<Rightarrow> Inl (AssertionError ''No match'')
      | Some matched \<Rightarrow> pd_timestamp ext matched)"

fun get_file_dates :: "'w external \<Rightarrow> string list \<Rightarrow> exn + (string \<times> int) list" where
  "get_file_dates ext [] = Inr []"
| "get_file_dates ext (file # files) =
     (case get_file_date ext file of
        Inl raised \<Rightarrow> Inl raised
      | Inr ts \<Rightarrow>
          (case get_file_dates ext files of
             Inl raised \<Rightarrow> Inl raised
           | Inr dated \<Rightarrow> Inr ((file, ts) # dated)))"

text \<open>
  \<^verbatim>\<open>select_latest_file\<close>: \<^verbatim>\<open>sorted(files, key=get_file_date, reverse=True)[0]\<close>.
  The sort is stable, so of the files with the latest date the first listed is taken.
\<close>

definition select_latest_file :: "'w external \<Rightarrow> string list \<Rightarrow> exn + string" where
  "select_latest_file ext files =
     (case get_file_dates ext files of
        Inl raised \<Rightarrow> Inl raised
      | Inr dated \<Rightarrow>
          (case sort_key (\<lambda>file_ts. - snd file_ts) dated of
             [] \<Rightarrow> Inl IndexError
           | latest # others \<Rightarrow> Inr (fst latest)))"

definition get_file :: "'w external \<Rightarrow> 'w env \<Rightarrow> string \<Rightarrow> string \<Rightarrow> exn + string" where
  "get_file ext env folder name =
     (case glob ext env folder (''*'' @ name @ ''*'') of
        [] \<Rightarrow> Inl (AssertionError (''0 files with `'' @ name @ ''` in '' @ folder))
      | [file] \<Rightarrow> Inr file
      | file # file2 # files \<Rightarrow> select_latest_file ext (file # file2 # files))"

text \<open>
  \<^verbatim>\<open>read_file\<close>: the file found is read as a pickle or, with \<^verbatim>\<open>proc\<close>, as a
  parquet table; when \<^verbatim>\<open>get_file\<close> raises AssertionError the method returns
  \<^verbatim>\<open>None\<close>.
\<close>

datatype file_content = Pickled pickle | Parquet dataframe

definition read_file ::
  "'w external \<Rightarrow> 'w env \<Rightarrow> string \<Rightarrow> string \<Rightarrow> bool \<Rightarrow> exn + file_content option" where
  "read_file ext env folder name proc =
     (case get_file ext env folder name of
        Inl (AssertionError msg) \<Rightarrow> Inr None
      | Inl other \<Rightarrow> Inl other
      | Inr file \<Rightarrow>
          if proc then
            (case proc_files env file of
               None \<Rightarrow> Inl (FileNotFoundError file)
             | Some df \<Rightarrow> Inr (Some (Parquet df)))
          else
            (case load_pickle_file env file of
               None \<Rightarrow> Inl (FileNotFoundError file)
             | Some data \<Rightarrow> Inr (Some (Pickled data))))"

text \<open>
  \<^verbatim>\<open>setattr\<close> for the attributes that the restore sets. The model's attributes are
  typed: a file that holds another kind of object than the collector saves under that
  name is a TypeError here (in Python the object is stored and fails when first used).
\<close>

definition set_attribute ::
  "string \<Rightarrow> file_content option \<Rightarrow> yt_entity_data \<Rightarrow> exn + yt_entity_data" where
  "set_attribute attr_name file yt =
     (if attr_name = ''upload_responses'' then
        (case file of
           None \<Rightarrow> Inr (yt\<lparr>upload_responses := None\<rparr>)
         | Some (Pickled data) \<Rightarrow> Inr (yt\<lparr>upload_responses := Some data\<rparr>)
         | Some other \<Rightarrow> Inl TypeError)
      else if attr_name = ''videos_responses'' then
        (case file of
           None \<Rightarrow> Inr (yt\<lparr>videos_responses := None\<rparr>)
         | Some (Pickled data) \<Rightarrow> Inr (yt\<lparr>videos_responses := Some data\<rparr>)
         | Some other \<Rightarrow> Inl TypeError)
      else if attr_name = ''responses_toplevel'' then
        (case file of
           None \<Rightarrow> Inr (yt\<lparr>responses_toplevel := None\<rparr>)
         | Some (Pickled (Pickle_Comments data)) \<Rightarrow> Inr (yt\<lparr>responses_toplevel := Some data\<rparr>)
         | Some other \<Rightarrow> Inl TypeError)
      else if attr_name = ''responses_replies'' then
        (case file of
           None \<Rightarrow> Inr (yt\<lparr>responses_replies := None\<rparr>)
         | Some (Pickled (Pickle_Comments data)) \<Rightarrow> Inr (yt\<lparr>responses_replies := Some data\<rparr>)
         | Some other \<Rightarrow> Inl TypeError)
      else if attr_name = ''videos_with_comments_disabled'' then
        (case file of
           None \<Rightarrow> Inr (yt\<lparr>videos_with_comments_disabled := None\<rparr>)
         | Some (Pickled (Pickle_Ids data)) \<Rightarrow>
             Inr (yt\<lparr>videos_with_comments_disabled := Some data\<rparr>)
         | Some (Pickled Pickle_None) \<Rightarrow> Inr (yt\<lparr>videos_with_comments_disabled := None\<rparr>)
         | Some other \<Rightarrow> Inl TypeError)
      else if attr_name = ''df_upload_playlist'' then
        (case file of
           None \<Rightarrow> Inr (yt\<lparr>df_upload_playlist := None\<rparr>)
         | Some (Parquet df) \<Rightarrow> Inr (yt\<lparr>df_upload_playlist := Some df\<rparr>)
         | Some other \<Rightarrow> Inl TypeError)
      else if attr_name = ''df_m'' then
        (case file of
           None \<Rightarrow> Inr (yt\<lparr>df_m := None\<rparr>)
         | Some (Parquet df) \<Rightarrow> Inr (yt\<lparr>df_m := Some df\<rparr>)
         | Some other \<Rightarrow> Inl TypeError)
      else Inl AttributeError)"

text \<open>The loop of \<^verbatim>\<open>restore_responses\<close> over the zipped names.\<close>

fun restore_responses_loop ::
  "'w external \<Rightarrow> 'w env \<Rightarrow> string \<Rightarrow> string \<Rightarrow> (string \<times> string) list \<Rightarrow> yt_entity_data
    \<Rightarrow> (exn + unit) \<times> yt_entity_data" where
  "restore_responses_loop ext env channel date [] yt = (Inr (), yt)"
| "restore_responses_loop ext env channel date ((name, attr_name) # rest) yt =
     (case read_file ext env (''raw/'' @ channel)
             (if name = ''disabled'' then name @ ''*'' @ date
              else channel @ ''*'' @ name @ ''*'' @ date) False of
        Inl raised \<Rightarrow> (Inl raised, yt)
      | Inr file \<Rightarrow>
          (case set_attribute attr_name file yt of
             Inl raised \<Rightarrow> (Inl raised, yt)
           | Inr yt1 \<Rightarrow> restore_responses_loop ext env channel date rest yt1))"

definition restore_responses ::
  "'w external \<Rightarrow> 'w env \<Rightarrow> string \<Rightarrow> string \<Rightarrow> yt_entity_data \<Rightarrow> (exn + unit) \<times> yt_entity_data" where
  "restore_responses ext env channel date yt =
     restore_responses_loop ext env channel date
       (zip [''upload'', ''video'', ''toplevel'', ''replies'', ''disabled'']
            [''upload_responses'', ''videos_responses'', ''responses_toplevel'',
             ''responses_replies'', ''videos_with_comments_disabled''])
       yt"

fun restore_dfs_loop ::
  "'w external \<Rightarrow> 'w env \<Rightarrow> string \<Rightarrow> (string \<times> string) list \<Rightarrow> yt_entity_data
    \<Rightarrow> (exn + unit) \<times> yt_entity_data" where
  "restore_dfs_loop ext env channel [] yt = (Inr (), yt)"
| "restore_dfs_loop ext env channel ((name, attr_name) # rest) yt =
     (case read_file ext env (''proc/'' @ channel) name True of
        Inl raised \<Rightarrow> (Inl raised, yt)
      | Inr file \<Rightarrow>
          (case set_attribute attr_name file yt of
             Inl raised \<Rightarrow> (Inl raised, yt)
           | Inr yt1 \<Rightarrow> restore_dfs_loop ext env channel rest yt1))"

definition restore_dfs ::
  "'w external \<Rightarrow> 'w env \<Rightarrow> string \<Rightarrow> yt_entity_data \<Rightarrow> (exn + unit) \<times> yt_entity_data" where
  "restore_dfs ext env channel yt =
     restore_dfs_loop ext env channel
       (zip [''upload'', ''video''] [''df_upload_playlist'', ''df_m'']) yt"

text \<open>
  \<^verbatim>\<open>handle_collected_comments\<close>: the ids of the merged table, reversed; the collected
  ids are the keys of the restored top-level comments; the work list is what remains;
  the counter is the number collected and the buffer is empty.
\<close>

definition handle_collected_comments ::
  "yt_entity_data \<Rightarrow> 'w env \<Rightarrow> (exn + unit) \<times> yt_entity_data \<times> 'w env" where
  "handle_collected_comments yt env =
     (case df_m yt of
        None \<Rightarrow> (Inl AttributeError, yt, env)
      | Some df \<Rightarrow>
          (case responses_toplevel yt of
             None \<Rightarrow> (Inl AttributeError, yt\<lparr>video_ids := Some (rev (video_ids_column df))\<rparr>, env)
           | Some toplevel \<Rightarrow>
               (Inr (),
                yt\<lparr>video_ids := Some (rev (video_ids_column df)),
                    collected_video_ids := Some (map fst toplevel),
                    videos_ids_to_collect :=
                      Some (filter (\<lambda>video_id. video_id \<notin> set (map fst toplevel))
                              (rev (video_ids_column df))),
                    yt_i := Some (int (length (map fst toplevel))),
                    temp_id_storage := Some []\<rparr>,
                env\<lparr>printed := printed env @
                       [Msg_Restore_Totals (length (video_ids_column df))
                          (length (map fst toplevel))
                          (length (filter (\<lambda>video_id. video_id \<notin> set (map fst toplevel))
                                     (rev (video_ids_column df))))]\<rparr>)))"

text \<open>
  \<^verbatim>\<open>restore_obj_from_checkpoint\<close> for a channel, a date and the object to restore;
  on success the restored object is the second component.
\<close>

definition restore_obj_from_checkpoint ::
  "'w external \<Rightarrow> string \<Rightarrow> string \<Rightarrow> yt_entity_data \<Rightarrow> 'w env
    \<Rightarrow> (exn + unit) \<times> yt_entity_data \<times> 'w env" where
  "restore_obj_from_checkpoint ext channel date yt env =
     (case restore_responses ext env channel date yt of
        (Inl raised, yt1) \<Rightarrow> (Inl raised, yt1, env)
      | (Inr u, yt1) \<Rightarrow>
          (case restore_dfs ext env channel yt1 of
             (Inl raised, yt2) \<Rightarrow> (Inl raised, yt2, env)
           | (Inr u2, yt2) \<Rightarrow> handle_collected_comments yt2 env))"

section \<open>Notions used in the statements\<close>

subsection \<open>Page requests\<close>

text \<open>The pages that a stretch of the request log returned, in order.\<close>

fun pages_of :: "(string \<times> string option \<times> (exn + response)) list \<Rightarrow> response list" where
  "pages_of [] = []"
| "pages_of ((item_id, page_token, Inr page) # rest) = page # pages_of rest"
| "pages_of ((item_id, page_token, Inl raised) # rest) = pages_of rest"

text \<open>The continuation token after a run of pages: that of the last page, or the one started from.\<close>

fun token_after :: "string option \<Rightarrow> response list \<Rightarrow> string option" where
  "token_after token [] = token"
| "token_after token (page # pages) = token_after (nextPageToken page) pages"

text \<open>
  A stretch of the request log pages through one item from a given token: every request
  is for that item, the first carries the given token, each later one the token of the
  page before it, and nothing follows a request that raised.
\<close>

fun resumes_from ::
  "string \<Rightarrow> string option \<Rightarrow> (string \<times> string option \<times> (exn + response)) list \<Rightarrow> bool" where
  "resumes_from item_id token [] = True"
| "resumes_from item_id token ((requested_id, requested_token, result) # rest) =
     (requested_id = item_id \<and> requested_token = token \<and>
      (case result of
         Inr page \<Rightarrow> resumes_from item_id (nextPageToken page) rest
       | Inl raised \<Rightarrow> rest = []))"

text \<open>What a returned run of the pager's loop leaves behind.\<close>

definition loop_post ::
  "string \<Rightarrow> data_class_pager \<Rightarrow> 'w env \<Rightarrow> exn + response list \<Rightarrow> 'w env \<Rightarrow> bool" where
  "loop_post item_id pager_data env outcome env1 \<longleftrightarrow>
    (\<exists>new. calls env1 = calls env @ new \<and>
       resumes_from item_id (next_page_token pager_data) new \<and>
       (all_items_collected pager_data \<longrightarrow>
          env1 = env \<and> outcome = Inr (responses pager_data)) \<and>
       (\<not> all_items_collected pager_data \<longrightarrow> new \<noteq> [] \<and>
          (case outcome of
             Inr pages \<Rightarrow>
               pages = responses pager_data @ pages_of new \<and>
               (\<exists>final. tmp_files env1 (get_tmp_file item_id) = Some (Pickle_Pager final) \<and>
                  all_items_collected final \<and> responses final = pages)
           | Inl raised \<Rightarrow>
               last new =
                 (item_id, token_after (next_page_token pager_data) (pages_of new), Inl raised) \<and>
               (\<forall>e. raised = HttpError e \<longrightarrow> unpack_http_error e = Inr ''quotaExceeded'' \<longrightarrow>
                  tmp_files env1 (get_tmp_file item_id) =
                    Some (Pickle_Pager
                      (pager_data\<lparr>responses := responses pager_data @ pages_of new,
                         num_requests := num_requests pager_data + int (length (pages_of new)),
                         next_page_token :=
                           token_after (next_page_token pager_data) (pages_of new)\<rparr>))))))"

subsection \<open>Errors and retries\<close>

text \<open>The three reasons on which \<^verbatim>\<open>handle_http_error\<close> ends the run.\<close>

definition fatal_reason :: "string \<Rightarrow> bool" where
  "fatal_reason reason \<longleftrightarrow>
     reason = ''quotaExceeded'' \<or> reason = ''forbidden'' \<or> reason = ''accessNotConfigured''"

text \<open>An error that the handler answers with a sleep: its reason is unreadable or not fatal.\<close>

definition retryable :: "http_error \<Rightarrow> bool" where
  "retryable e = (case unpack_http_error e of Inl unpack_failure \<Rightarrow> True
                  | Inr reason \<Rightarrow> \<not> fatal_reason reason)"

text \<open>The sleep that follows it, in seconds.\<close>

definition retry_delay :: "http_error \<Rightarrow> nat" where
  "retry_delay e = (case unpack_http_error e of Inl unpack_failure \<Rightarrow> 2 | Inr reason \<Rightarrow> 5)"

text \<open>The buffer and the work list exist as lists.\<close>

definition buffer_ready :: "yt_entity_data \<Rightarrow> bool" where
  "buffer_ready yt \<longleftrightarrow> temp_id_storage yt \<noteq> None \<and> videos_ids_to_collect yt \<noteq> None"

subsection \<open>The restore\<close>

text \<open>
  The pattern under which \<^verbatim>\<open>restore_responses\<close> looks for the top-level comments
  of a channel and a date.
\<close>

definition toplevel_pattern :: "string \<Rightarrow> string \<Rightarrow> string" where
  "toplevel_pattern channel date = channel @ ''*'' @ ''toplevel'' @ ''*'' @ date"

subsection \<open>The comment loop\<close>

text \<open>What requests to the API and checkpoints in the temporary folder leave alone.\<close>

definition env_kept :: "'w env \<Rightarrow> 'w env \<Rightarrow> bool" where
  "env_kept env env1 \<longleftrightarrow>
     raw_writes env1 = raw_writes env \<and> printed env1 = printed env \<and>
     sleeps env1 = sleeps env \<and> today env1 = today env \<and> proc_files env1 = proc_files env"

text \<open>The work list, the buffer, the collected ids, the counter and the list of all ids.\<close>

definition frontier_kept :: "yt_entity_data \<Rightarrow> yt_entity_data \<Rightarrow> bool" where
  "frontier_kept yt yt1 \<longleftrightarrow>
     videos_ids_to_collect yt1 = videos_ids_to_collect yt \<and>
     collected_video_ids yt1 = collected_video_ids yt \<and>
     temp_id_storage yt1 = temp_id_storage yt \<and>
     yt_i yt1 = yt_i yt \<and> video_ids yt1 = video_ids yt"

text \<open>
  The steps of a crawl, as the loop of \<^verbatim>\<open>collect_comments\<close> and its decorator take
  them: an id is taken from the work list; the comments of the buffered id are collected
  (with the handling of disabled comments); the buffered id is booked; after an HttpError
  the handler of the decorator runs. A step that is not possible (an empty work list, an
  empty buffer, a collection that never returns) gives \<open>None\<close>. A step that raises
  leaves the object as the raise found it.
\<close>

datatype crawl_move = Take | Collect | Bookkeep | Put_Back http_error

definition crawl_step ::
  "'w external \<Rightarrow> string \<Rightarrow> crawl_move \<Rightarrow> yt_entity_data \<times> 'w env
    \<Rightarrow> (yt_entity_data \<times> 'w env) option" where
  "crawl_step ext channel move state =
     (case state of
        (yt, env) \<Rightarrow>
          (case move of
             Take \<Rightarrow>
               (case videos_ids_to_collect yt of
                  Some (v # vs) \<Rightarrow> Some (snd (get_video_id_to_collect yt), env)
                | _ \<Rightarrow> None)
           | Collect \<Rightarrow>
               (case temp_id_storage yt of
                  Some (b # bs) \<Rightarrow>
                    (case safe_collect_comments_video ext (last (b # bs)) yt env of
                       None \<Rightarrow> None
                     | Some (outcome, yt1, env1) \<Rightarrow> Some (yt1, env1))
                | _ \<Rightarrow> None)
           | Bookkeep \<Rightarrow>
               (case temp_id_storage yt of
                  Some (b # bs) \<Rightarrow>
                    (case bookkeeping_comments channel (last (b # bs)) yt env of
                       (outcome, yt1, env1) \<Rightarrow> Some (yt1, env1))
                | _ \<Rightarrow> None)
           | Put_Back e \<Rightarrow>
               (case handle_http_error e yt env of
                  (outcome, yt1, env1) \<Rightarrow> Some (yt1, env1))))"

fun crawl_steps ::
  "'w external \<Rightarrow> string \<Rightarrow> crawl_move list \<Rightarrow> yt_entity_data \<times> 'w env
    \<Rightarrow> (yt_entity_data \<times> 'w env) option" where
  "crawl_steps ext channel [] state = Some state"
| "crawl_steps ext channel (move # moves) state =
     (case crawl_step ext channel move state of
        None \<Rightarrow> None
      | Some next_state \<Rightarrow> crawl_steps ext channel moves next_state)"

text \<open>
  Every known id is in exactly one of the work list, the buffer and the collected ids,
  and the videos with disabled comments are known ids.
\<close>

definition frontier_inv :: "string list \<Rightarrow> yt_entity_data \<Rightarrow> bool" where
  "frontier_inv ids yt =
     (case (videos_ids_to_collect yt, temp_id_storage yt, collected_video_ids yt,
            videos_with_comments_disabled yt) of
        (Some pending, Some in_flight, Some collected, Some disabled) \<Rightarrow>
          distinct (pending @ in_flight @ collected) \<and>
          set (pending @ in_flight @ collected) = set ids \<and>
          set disabled \<subseteq> set ids
      | _ \<Rightarrow> False)"

subsection \<open>Flushes\<close>


definition toplevel_file :: "string \<Rightarrow> 'w env \<Rightarrow> string" where
  "toplevel_file channel env = get_file_response (channel @ ''-toplevelcomments'') channel env"

definition writes_to :: "string \<Rightarrow> (string \<times> pickle) list \<Rightarrow> pickle list" where
  "writes_to file log = map snd (filter (\<lambda>entry. fst entry = file) log)"





section \<open>Example inputs\<close>

text \<open>An environment with no files, no requests and nothing printed.\<close>

definition empty_env :: "'w \<Rightarrow> 'w env" where
  "empty_env w =
     \<lparr>world = w, calls = [], tmp_files = Map.empty, raw_writes = [], proc_files = Map.empty,
      sleeps = [], printed = [], today = ''2022-06-01''\<rparr>"

definition error_with_reason :: "string \<Rightarrow> http_error" where
  "error_with_reason reason =
     Http_Error (Details_List [[(''message'', ''refused''), (''reason'', reason)]])"

definition example_page :: "string \<Rightarrow> string option \<Rightarrow> response" where
  "example_page body token =
     \<lparr>items = [Thread_Item body ''v1'' 0 (Comment body body)], nextPageToken = token\<rparr>"

text \<open>
  A remote list of three pages; the world counts the requests served, and every request
  beyond the quota raises \<^verbatim>\<open>quotaExceeded\<close>.
\<close>

definition three_pages :: "nat \<Rightarrow> nat pager_func" where
  "three_pages quota item_id page_token served =
     (if quota \<le> served then (Inl (HttpError (error_with_reason ''quotaExceeded'')), served)
      else
        (Inr (case page_token of
                None \<Rightarrow> example_page ''first'' (Some ''t1'')
              | Some token \<Rightarrow>
                  if token = ''t1'' then example_page ''second'' (Some ''t2'')
                  else example_page ''third'' None),
         Suc served))"

text \<open>An empty response page.\<close>

definition empty_page :: response where
  "empty_page = \<lparr>items = [], nextPageToken = None\<rparr>"

text \<open>
  A remote API without state: the comment threads of a video are refused with the error
  that \<open>refusal\<close> gives for it, and are otherwise one empty page; replies are one empty
  page; every channel has the given response. The two unmodelled phases change nothing,
  and no file is found on disk.
\<close>

definition example_external ::
  "(string \<Rightarrow> http_error option) \<Rightarrow> channel_response \<Rightarrow> unit external" where
  "example_external refusal response =
     \<lparr>channels_list = (\<lambda>channel_id w. (Inr response, w)),
      comment_threads_list =
        (\<lambda>video_id page_token w.
           case refusal video_id of
             Some e \<Rightarrow> (Inl (HttpError e), w)
           | None \<Rightarrow> (Inr empty_page, w)),
      comments_list = (\<lambda>comment_id page_token w. (Inr empty_page, w)),
      uploads_phase = (\<lambda>upload_playlist_id channel yt env. Some (Inr (), yt, env)),
      videos_phase = (\<lambda>channel yt env. Some (Inr (), yt, env)),
      glob = (\<lambda>env folder pattern. []),
      re_date_search = (\<lambda>name. None),
      pd_timestamp = (\<lambda>matched. Inr 0)\<rparr>"

text \<open>A collector object at the start of the comment loop with the given work list.\<close>

definition ready_collector :: "string list \<Rightarrow> yt_entity_data" where
  "ready_collector ids =
     (new_yt_entity_data ''key'' [(''channel'', ''UC1'')])
       \<lparr>video_ids := Some ids, videos_ids_to_collect := Some ids,
        collected_video_ids := Some [], responses_replies := Some [],
        responses_toplevel := Some [], yt_i := Some 0, temp_id_storage := Some [],
        videos_with_comments_disabled := Some []\<rparr>"

text \<open>Refusals of comment threads: of every video, or of one, with a given reason.\<close>

definition refuse_all :: "string \<Rightarrow> string \<Rightarrow> http_error option" where
  "refuse_all reason video_id = Some (error_with_reason reason)"

definition refuse_one :: "string \<Rightarrow> string \<Rightarrow> string \<Rightarrow> http_error option" where
  "refuse_one refused reason video_id =
     (if video_id = refused then Some (error_with_reason reason) else None)"

text \<open>The response for a channel id that matches no channel: no key \<^verbatim>\<open>items\<close>.\<close>

definition no_channel :: channel_response where
  "no_channel = Channel_Response None"

text \<open>
  A disk for the restore of the channel \<open>channel\<close> at the date of \<open>empty_env\<close>: the
  merged video table with three videos, and, when \<open>with_toplevel\<close> holds, the saved
  top-level comments of the second video.
\<close>

definition example_df_file :: string where
  "example_df_file = ''proc/channel/channel-video-playlist-2022-06-01.gzip.parquet''"

definition example_toplevel_file :: string where
  "example_toplevel_file = ''raw/channel/channel-toplevelcomments-2022-06-01.pkl''"

definition disk_external :: "bool \<Rightarrow> unit external" where
  "disk_external with_toplevel =
     (example_external (refuse_all ''unused'') no_channel)
       \<lparr>glob :=
          (\<lambda>env folder pattern.
             if folder = ''proc/channel'' \<and> pattern = ''*video*'' then [example_df_file]
             else if folder = ''raw/channel'' \<and> pattern = ''*channel*toplevel*2022-06-01*'' \<and>
                     with_toplevel
             then [example_toplevel_file]
             else [])\<rparr>"

definition disk_env :: "unit env" where
  "disk_env =
     (empty_env ())
       \<lparr>raw_writes := [(example_toplevel_file, Pickle_Comments [(''v2'', [])])],
        proc_files := [example_df_file \<mapsto> DataFrame [''v3'', ''v2'', ''v1'']]\<rparr>"


text \<open>
  An HttpError whose details are a text, as for a response that is not JSON: its reason
  cannot be unpacked.
\<close>

definition unreadable_error :: http_error where
  "unreadable_error = Http_Error (Details_Text ''Bad Gateway'')"

text \<open>
  A remote API that refuses nothing: every video has one empty page of comment threads.
  The checkpoint of a video collected from it is \<open>done_pager\<close>.
\<close>

definition quiet_api :: "unit external" where
  "quiet_api = example_external (\<lambda>video_id. None) no_channel"




section \<open>The checkpointed pager: what a run leaves behind\<close>

text \<open>
  Every returned run of the loop extends the request log by requests for the item that
  follow the continuation tokens, and leaves the checkpoint described by \<open>loop_post\<close>.
  The proof is by the induction rule of the loop.
\<close>

lemma query_loop_post:
  assumes ret: "query_loop f item pd env = Some y"
  shows "loop_post item pd env (fst y) (snd y)"
proof (rule query_loop.raw_induct [where P = "\<lambda>f item pd env y. loop_post item pd env (fst y) (snd y)", OF _ ret])
  fix loop :: "'a pager_func \<Rightarrow> string \<Rightarrow> data_class_pager \<Rightarrow> 'a env \<Rightarrow> ((exn + response list) \<times> 'a env) option"
  fix f item pd env y
  assume IH: "\<And>f item pd env y. loop f item pd env = Some y \<Longrightarrow> loop_post item pd env (fst y) (snd y)"
  assume eq: "(if all_items_collected pd then Some (Inr (responses pd), env)
      else
        (case call_pager f item (next_page_token pd) env of
           (Inl (HttpError e), env1) \<Rightarrow>
             (case check_quota_exceeded_tmp e item (Pickle_Pager pd) env1 of
                (raised, env2) \<Rightarrow> Some (Inl raised, env2))
         | (Inl other, env1) \<Rightarrow> Some (Inl other, env1)
         | (Inr response, env1) \<Rightarrow>
             (case nextPageToken response of
                Some token \<Rightarrow>
                  loop f item
                    (pd\<lparr>responses := responses pd @ [response],
                       num_requests := num_requests pd + 1,
                       next_page_token := Some token\<rparr>) env1
              | None \<Rightarrow>
                  loop f item
                    (pd\<lparr>responses := responses pd @ [response],
                       num_requests := num_requests pd + 1,
                       all_items_collected := True\<rparr>)
                    (save_tmp_data item
                       (Pickle_Pager
                          (pd\<lparr>responses := responses pd @ [response],
                             num_requests := num_requests pd + 1,
                             all_items_collected := True\<rparr>)) env1)))) = Some y"
  show "loop_post item pd env (fst y) (snd y)"
    proof (cases "all_items_collected pd")
      case True
      with eq show ?thesis by (auto simp: loop_post_def)
    next
      case False
      obtain r env1 where call: "call_pager f item (next_page_token pd) env = (r, env1)"
        by (cases "call_pager f item (next_page_token pd) env")
      then have env1: "calls env1 = calls env @ [(item, next_page_token pd, r)]"
        "tmp_files env1 = tmp_files env"
        by (auto simp: call_pager_def split: prod.splits)
      show ?thesis
      proof (cases r)
        case (Inl ex)
        with eq False call env1 show ?thesis
          by (cases ex) (auto simp: loop_post_def check_quota_exceeded_tmp_def save_tmp_data_def split: sum.splits if_splits)
      next
        case (Inr page)
        show ?thesis
        proof (cases "nextPageToken page")
          case None
          let ?pd2 = "pd\<lparr>responses := responses pd @ [page], num_requests := num_requests pd + 1, all_items_collected := True\<rparr>"
          let ?env2 = "save_tmp_data item (Pickle_Pager ?pd2) env1"
          from eq False call Inr None
          have "loop f item ?pd2 ?env2 = Some y" by simp
          from IH [OF this] have "snd y = ?env2" "fst y = Inr (responses ?pd2)"
            by (auto simp: loop_post_def)
          with False env1 Inr None show ?thesis
            by (cases y) (auto simp: loop_post_def save_tmp_data_def intro!: exI [of _ "[(item, next_page_token pd, Inr page)]"])
        next
          case (Some t)
          let ?pd1 = "pd\<lparr>responses := responses pd @ [page], num_requests := num_requests pd + 1, next_page_token := Some t\<rparr>"
          from eq False call Inr Some
          have "loop f item ?pd1 env1 = Some y" by simp
          from IH [OF this] False obtain new where new: "calls (snd y) = calls env1 @ new"
            "resumes_from item (Some t) new" "new \<noteq> []"
            "(case fst y of
             Inr pages \<Rightarrow> pages = responses ?pd1 @ pages_of new \<and>
               (\<exists>pdf. tmp_files (snd y) (get_tmp_file item) = Some (Pickle_Pager pdf) \<and>
                   all_items_collected pdf \<and> responses pdf = pages)
           | Inl ex \<Rightarrow> last new = (item, token_after (next_page_token ?pd1) (pages_of new), Inl ex) \<and>
               (\<forall>e. ex = HttpError e \<longrightarrow> unpack_http_error e = Inr ''quotaExceeded'' \<longrightarrow>
                  tmp_files (snd y) (get_tmp_file item) =
                    Some (Pickle_Pager (?pd1\<lparr>responses := responses ?pd1 @ pages_of new,
                       num_requests := num_requests ?pd1 + int (length (pages_of new)),
                       next_page_token := token_after (next_page_token ?pd1) (pages_of new)\<rparr>))))"
            by (auto simp: loop_post_def)
          let ?new = "(item, next_page_token pd, Inr page) # new"
          have "calls (snd y) = calls env @ ?new" using new(1) env1 Inr by simp
          moreover have "resumes_from item (next_page_token pd) ?new" using new(2) Some by simp
          moreover have "(case fst y of
             Inr pages \<Rightarrow> pages = responses pd @ pages_of ?new \<and>
               (\<exists>pdf. tmp_files (snd y) (get_tmp_file item) = Some (Pickle_Pager pdf) \<and>
                   all_items_collected pdf \<and> responses pdf = pages)
           | Inl ex \<Rightarrow> last ?new = (item, token_after (next_page_token pd) (pages_of ?new), Inl ex) \<and>
               (\<forall>e. ex = HttpError e \<longrightarrow> unpack_http_error e = Inr ''quotaExceeded'' \<longrightarrow>
                  tmp_files (snd y) (get_tmp_file item) =
                    Some (Pickle_Pager (pd\<lparr>responses := responses pd @ pages_of ?new,
                       num_requests := num_requests pd + int (length (pages_of ?new)),
                       next_page_token := token_after (next_page_token pd) (pages_of ?new)\<rparr>))))"
            using new(3,4) Some by (auto split: sum.splits)
          ultimately show ?thesis using False unfolding loop_post_def by blast
        qed
      qed
    qed
qed

lemma token_after_last:
  "token_after token pages = (if pages = [] then token else nextPageToken (last pages))"
  by (induction pages arbitrary: token) auto

lemma init_pager_cases:
  "init_pager item env = Inr pd \<Longrightarrow>
     (tmp_files env (get_tmp_file item) = None \<and> pd = \<lparr>responses = [], next_page_token = None,
                      all_items_collected = False, num_requests = 0\<rparr>)
     \<or> tmp_files env (get_tmp_file item) = Some (Pickle_Pager pd)"
  by (auto simp: init_pager_def split: option.splits pickle.splits)

lemmas pager_eval = query_all_items_def init_pager_def query_loop.simps call_pager_def
  three_pages_def get_tmp_file_def example_page_def check_quota_exceeded_tmp_def
  unpack_http_error_def error_with_reason_def save_tmp_data_def empty_env_def

text \<open>
  Claim C2. Once the collection of an item has completed, collecting the same item again
  issues no page request (the environment, with its request log, comes back unchanged,
  whatever the pager function would do) and returns the same pages. It is enough that
  the item's checkpoint file is the one the completing call left.
\<close>

theorem completed_collection_is_replayed:
  assumes finished: "query_all_items item_id pager_func env = Some (Inr pages, env1)"
      and kept: "tmp_files env2 (get_tmp_file item_id) = tmp_files env1 (get_tmp_file item_id)"
  shows "query_all_items item_id later_pager_func env2 = Some (Inr pages, env2)"
proof -
  from finished obtain pd where init: "init_pager item_id env = Inr pd"
    and loop: "query_loop pager_func item_id pd env = Some (Inr pages, env1)"
    by (auto simp: query_all_items_def split: sum.splits)
  from query_loop_post [OF loop]
  have post: "loop_post item_id pd env (Inr pages) env1" by simp
  have "\<exists>pdf. tmp_files env1 (get_tmp_file item_id) = Some (Pickle_Pager pdf) \<and>
          all_items_collected pdf \<and> responses pdf = pages"
  proof (cases "all_items_collected pd")
    case True
    with post have "env1 = env" "pages = responses pd" by (auto simp: loop_post_def)
    moreover from init True have "tmp_files env (get_tmp_file item_id) = Some (Pickle_Pager pd)"
      using init_pager_cases by fastforce
    ultimately show ?thesis using True by simp
  next
    case False
    with post show ?thesis by (auto simp: loop_post_def)
  qed
  then obtain pdf where "tmp_files env2 (get_tmp_file item_id) = Some (Pickle_Pager pdf)"
    "all_items_collected pdf" "responses pdf = pages"
    using kept by auto
  then show ?thesis
    by (simp add: query_all_items_def init_pager_def query_loop.simps)
qed

text \<open>
  An instance: three pages are collected with three requests; the second collection,
  given a pager function that would refuse every request, returns the same pages and
  the same environment.
\<close>

theorem completed_collection_is_replayed_witness:
  "\<exists>env1. query_all_items ''v1'' (three_pages 5) (empty_env 0) =
       Some (Inr [example_page ''first'' (Some ''t1''), example_page ''second'' (Some ''t2''),
                  example_page ''third'' None], env1) \<and>
     map fst (calls env1) = [''v1'', ''v1'', ''v1''] \<and>
     query_all_items ''v1'' (three_pages 0) env1 =
       Some (Inr [example_page ''first'' (Some ''t1''), example_page ''second'' (Some ''t2''),
                  example_page ''third'' None], env1)"
proof -
  obtain env1 where run: "query_all_items ''v1'' (three_pages 5) (empty_env 0) =
       Some (Inr [example_page ''first'' (Some ''t1''), example_page ''second'' (Some ''t2''),
                  example_page ''third'' None], env1)"
    and log: "map fst (calls env1) = [''v1'', ''v1'', ''v1'']"
    by (simp add: pager_eval)
  have "query_all_items ''v1'' (three_pages 0) env1 =
       Some (Inr [example_page ''first'' (Some ''t1''), example_page ''second'' (Some ''t2''),
                  example_page ''third'' None], env1)"
    by (rule completed_collection_is_replayed [OF run refl])
  with run log show ?thesis by (intro exI [of _ env1] conjI)
qed

text \<open>
  Claim C1. When the pager function raises an HttpError with the reason
  \<^verbatim>\<open>quotaExceeded\<close>, the error propagates and the checkpoint file of the item then
  holds the pages the item had before this run followed by exactly the pages this run
  fetched (\<open>pages_of new\<close>), together with the continuation token of the last of them
  (the token of the request that was refused). A later collection of the item that finds
  this checkpoint issues its first request with that token, requests only along the
  continuation tokens from there, and returns the stored pages followed by the pages it
  fetched itself: no request is made for a stored page.
\<close>

theorem quota_checkpoint_resumes:
  assumes init: "init_pager item_id env = Inr pd0"
      and run: "query_all_items item_id pager_func env = Some (Inl (HttpError e), env1)"
      and quota: "unpack_http_error e = Inr ''quotaExceeded''"
  shows "\<exists>new pd.
           calls env1 = calls env @ new \<and>
           last new = (item_id, next_page_token pd, Inl (HttpError e)) \<and>
           tmp_files env1 (get_tmp_file item_id) = Some (Pickle_Pager pd) \<and>
           responses pd = responses pd0 @ pages_of new \<and>
           next_page_token pd =
             (if pages_of new = [] then next_page_token pd0
              else nextPageToken (last (pages_of new))) \<and>
           \<not> all_items_collected pd \<and>
           (\<forall>(later_pager_func :: 'v pager_func) env2 outcome env3.
              tmp_files env2 (get_tmp_file item_id) = Some (Pickle_Pager pd) \<longrightarrow>
              query_all_items item_id later_pager_func env2 = Some (outcome, env3) \<longrightarrow>
              (\<exists>new2. calls env3 = calls env2 @ new2 \<and> new2 \<noteq> [] \<and>
                 resumes_from item_id (next_page_token pd) new2 \<and>
                 (\<forall>all_pages. outcome = Inr all_pages \<longrightarrow>
                    all_pages = responses pd @ pages_of new2)))"
proof -
  from run init have loop: "query_loop pager_func item_id pd0 env = Some (Inl (HttpError e), env1)"
    by (simp add: query_all_items_def)
  from query_loop_post [OF loop]
  have post: "loop_post item_id pd0 env (Inl (HttpError e)) env1" by simp
  have open0: "\<not> all_items_collected pd0" using post by (auto simp: loop_post_def)
  from post open0 quota obtain new where new: "calls env1 = calls env @ new" "new \<noteq> []"
    "last new = (item_id, token_after (next_page_token pd0) (pages_of new), Inl (HttpError e))"
    "tmp_files env1 (get_tmp_file item_id) =
       Some (Pickle_Pager (pd0\<lparr>responses := responses pd0 @ pages_of new,
                       num_requests := num_requests pd0 + int (length (pages_of new)),
                       next_page_token := token_after (next_page_token pd0) (pages_of new)\<rparr>))"
    by (auto simp: loop_post_def)
  define pd where "pd = pd0\<lparr>responses := responses pd0 @ pages_of new,
                       num_requests := num_requests pd0 + int (length (pages_of new)),
                       next_page_token := token_after (next_page_token pd0) (pages_of new)\<rparr>"
  have later: "\<exists>new2. calls env3 = calls env2 @ new2 \<and> new2 \<noteq> [] \<and>
                 resumes_from item_id (next_page_token pd) new2 \<and>
                 (\<forall>all_pages. outcome = Inr all_pages \<longrightarrow>
                    all_pages = responses pd @ pages_of new2)"
    if ckpt: "tmp_files env2 (get_tmp_file item_id) = Some (Pickle_Pager pd)"
      and again: "query_all_items item_id g env2 = Some (outcome, env3)"
    for g :: "'v pager_func" and env2 outcome env3
  proof -
    from ckpt again have "query_loop g item_id pd env2 = Some (outcome, env3)"
      by (simp add: query_all_items_def init_pager_def)
    from query_loop_post [OF this] have "loop_post item_id pd env2 outcome env3" by simp
    moreover have "\<not> all_items_collected pd" using open0 by (simp add: pd_def)
    ultimately obtain new2 where n2: "calls env3 = calls env2 @ new2" "new2 \<noteq> []"
      "resumes_from item_id (next_page_token pd) new2"
      "case outcome of
         Inr pages \<Rightarrow> pages = responses pd @ pages_of new2 \<and>
           (\<exists>pdf. tmp_files env3 (get_tmp_file item_id) = Some (Pickle_Pager pdf) \<and>
              all_items_collected pdf \<and> responses pdf = pages)
       | Inl ex \<Rightarrow> last new2 = (item_id, token_after (next_page_token pd) (pages_of new2), Inl ex) \<and>
           (\<forall>e. ex = HttpError e \<longrightarrow> unpack_http_error e = Inr ''quotaExceeded'' \<longrightarrow>
              tmp_files env3 (get_tmp_file item_id) =
                Some (Pickle_Pager (pd\<lparr>responses := responses pd @ pages_of new2,
                   num_requests := num_requests pd + int (length (pages_of new2)),
                   next_page_token := token_after (next_page_token pd) (pages_of new2)\<rparr>)))"
      unfolding loop_post_def by blast
    from n2(4) have "\<forall>all_pages. outcome = Inr all_pages \<longrightarrow>
                    all_pages = responses pd @ pages_of new2"
      by (cases outcome) auto
    with n2(1,2,3) show ?thesis by blast
  qed
  have c1: "calls env1 = calls env @ new" by (rule new(1))
  have c2: "last new = (item_id, next_page_token pd, Inl (HttpError e))"
    using new(3) by (simp add: pd_def)
  have c3: "tmp_files env1 (get_tmp_file item_id) = Some (Pickle_Pager pd)"
    using new(4) by (simp add: pd_def)
  have c4: "responses pd = responses pd0 @ pages_of new" by (simp add: pd_def)
  have c5: "next_page_token pd =
             (if pages_of new = [] then next_page_token pd0
              else nextPageToken (last (pages_of new)))"
    by (simp add: pd_def token_after_last)
  have c6: "\<not> all_items_collected pd" using open0 by (simp add: pd_def)
  show ?thesis
  proof (rule exI [of _ new], rule exI [of _ pd], intro conjI allI impI)
    fix g :: "'v pager_func" and env2 outcome env3
    assume "tmp_files env2 (get_tmp_file item_id) = Some (Pickle_Pager pd)"
      and "query_all_items item_id g env2 = Some (outcome, env3)"
    then show "\<exists>new2. calls env3 = calls env2 @ new2 \<and> new2 \<noteq> [] \<and>
                 resumes_from item_id (next_page_token pd) new2 \<and>
                 (\<forall>all_pages. outcome = Inr all_pages \<longrightarrow>
                    all_pages = responses pd @ pages_of new2)"
      by (rule later)
  qed (fact c1 c2 c3 c4 c5 c6)+
qed

text \<open>
  An instance: with a quota of two requests the third request is refused; the checkpoint
  holds the first two pages and the token \<open>t2\<close>; the next collection issues the single
  request for \<open>t2\<close> and returns all three pages.
\<close>

theorem quota_checkpoint_resumes_witness:
  "\<exists>env1 env3.
     init_pager ''v1'' (empty_env (0::nat)) =
       Inr \<lparr>responses = [], next_page_token = None, all_items_collected = False,
            num_requests = 0\<rparr> \<and>
     query_all_items ''v1'' (three_pages 2) (empty_env 0) =
       Some (Inl (HttpError (error_with_reason ''quotaExceeded'')), env1) \<and>
     unpack_http_error (error_with_reason ''quotaExceeded'') = Inr ''quotaExceeded'' \<and>
     tmp_files env1 (get_tmp_file ''v1'') =
       Some (Pickle_Pager
         \<lparr>responses = [example_page ''first'' (Some ''t1''), example_page ''second'' (Some ''t2'')],
          next_page_token = Some ''t2'', all_items_collected = False, num_requests = 2\<rparr>) \<and>
     query_all_items ''v1'' (three_pages 5) (env1\<lparr>world := 0\<rparr>) =
       Some (Inr [example_page ''first'' (Some ''t1''), example_page ''second'' (Some ''t2''),
                  example_page ''third'' None], env3) \<and>
     calls env3 = calls env1 @ [(''v1'', Some ''t2'', Inr (example_page ''third'' None))] \<and>
     (\<exists>new pd.
        calls env1 = calls (empty_env (0::nat)) @ new \<and>
        last new = (''v1'', next_page_token pd,
                    Inl (HttpError (error_with_reason ''quotaExceeded''))) \<and>
        tmp_files env1 (get_tmp_file ''v1'') = Some (Pickle_Pager pd) \<and>
        responses pd = pages_of new \<and>
        \<not> all_items_collected pd \<and>
        (\<exists>new2. calls env3 = calls (env1\<lparr>world := 0\<rparr>) @ new2 \<and> new2 \<noteq> [] \<and>
           resumes_from ''v1'' (next_page_token pd) new2 \<and>
           [example_page ''first'' (Some ''t1''), example_page ''second'' (Some ''t2''),
            example_page ''third'' None] = responses pd @ pages_of new2))"
proof -
  have init: "init_pager ''v1'' (empty_env (0::nat)) =
       Inr \<lparr>responses = [], next_page_token = None, all_items_collected = False,
            num_requests = 0\<rparr>"
    by (simp add: pager_eval)
  obtain env1 where run: "query_all_items ''v1'' (three_pages 2) (empty_env 0) =
       Some (Inl (HttpError (error_with_reason ''quotaExceeded'')), env1)"
    and ckpt: "tmp_files env1 (get_tmp_file ''v1'') =
       Some (Pickle_Pager
         \<lparr>responses = [example_page ''first'' (Some ''t1''), example_page ''second'' (Some ''t2'')],
          next_page_token = Some ''t2'', all_items_collected = False, num_requests = 2\<rparr>)"
    by (simp add: pager_eval)
  have quota: "unpack_http_error (error_with_reason ''quotaExceeded'') = Inr ''quotaExceeded''"
    by (simp add: pager_eval)
  obtain env3 where later: "query_all_items ''v1'' (three_pages 5) (env1\<lparr>world := 0\<rparr>) =
       Some (Inr [example_page ''first'' (Some ''t1''), example_page ''second'' (Some ''t2''),
                  example_page ''third'' None], env3)"
    and log: "calls env3 = calls env1 @ [(''v1'', Some ''t2'', Inr (example_page ''third'' None))]"
    using ckpt by (simp add: pager_eval)
  let ?empty = "\<lparr>responses = [], next_page_token = None, all_items_collected = False,
            num_requests = 0\<rparr>"
  let ?resume = "\<lambda>pd. \<forall>(later_pager_func :: nat pager_func) env2 outcome env3.
              tmp_files env2 (get_tmp_file ''v1'') = Some (Pickle_Pager pd) \<longrightarrow>
              query_all_items ''v1'' later_pager_func env2 = Some (outcome, env3) \<longrightarrow>
              (\<exists>new2. calls env3 = calls env2 @ new2 \<and> new2 \<noteq> [] \<and>
                 resumes_from ''v1'' (next_page_token pd) new2 \<and>
                 (\<forall>all_pages. outcome = Inr all_pages \<longrightarrow>
                    all_pages = responses pd @ pages_of new2))"
  from quota_checkpoint_resumes [OF init run quota, where 'v = nat]
  obtain new pd where c1: "calls env1 = calls (empty_env (0::nat)) @ new"
    and c2: "last new = (''v1'', next_page_token pd,
                    Inl (HttpError (error_with_reason ''quotaExceeded'')))"
    and c3: "tmp_files env1 (get_tmp_file ''v1'') = Some (Pickle_Pager pd)"
    and c4: "responses pd = responses ?empty @ pages_of new"
    and c6: "\<not> all_items_collected pd"
    and resume: "?resume pd"
    by (elim exE conjE) blast
  from c3 have "tmp_files (env1\<lparr>world := 0\<rparr>) (get_tmp_file ''v1'') = Some (Pickle_Pager pd)"
    by simp
  from resume [rule_format, OF this later]
  have c7: "\<exists>new2. calls env3 = calls (env1\<lparr>world := 0\<rparr>) @ new2 \<and> new2 \<noteq> [] \<and>
           resumes_from ''v1'' (next_page_token pd) new2 \<and>
           [example_page ''first'' (Some ''t1''), example_page ''second'' (Some ''t2''),
            example_page ''third'' None] = responses pd @ pages_of new2"
    by simp
  from c4 have c4': "responses pd = pages_of new" by simp
  have "\<exists>new pd.
        calls env1 = calls (empty_env (0::nat)) @ new \<and>
        last new = (''v1'', next_page_token pd,
                    Inl (HttpError (error_with_reason ''quotaExceeded''))) \<and>
        tmp_files env1 (get_tmp_file ''v1'') = Some (Pickle_Pager pd) \<and>
        responses pd = pages_of new \<and>
        \<not> all_items_collected pd \<and>
        (\<exists>new2. calls env3 = calls (env1\<lparr>world := 0\<rparr>) @ new2 \<and> new2 \<noteq> [] \<and>
           resumes_from ''v1'' (next_page_token pd) new2 \<and>
           [example_page ''first'' (Some ''t1''), example_page ''second'' (Some ''t2''),
            example_page ''third'' None] = responses pd @ pages_of new2)"
    using c1 c2 c3 c4' c6 c7 by blast
  with init run quota ckpt later log show ?thesis
    by blast
qed

section \<open>The retry decorator\<close>

lemma put_back_ready:
  assumes "buffer_ready yt"
  shows "\<exists>yt1 env1. put_videoid_in_buffer_back yt env = (Inr (), yt1, env1) \<and>
           buffer_ready yt1 \<and> sleeps env1 = sleeps env"
  using assms
  by (auto simp: put_videoid_in_buffer_back_def buffer_ready_def)

lemma handle_retryable:
  assumes "buffer_ready yt" and "retryable e"
  shows "\<exists>yt1 env1. handle_http_error e yt env = (Inr (), yt1, env1) \<and>
           buffer_ready yt1 \<and> sleeps env1 = sleeps env @ [retry_delay e]"
proof -
  from put_back_ready [OF assms(1)] obtain yt1 env1 where
    pb: "put_videoid_in_buffer_back yt env = (Inr (), yt1, env1)" "buffer_ready yt1"
      "sleeps env1 = sleeps env"
    by blast
  with assms(2) show ?thesis
    by (auto simp: handle_http_error_def retryable_def retry_delay_def fatal_reason_def
        split: sum.splits)
qed

text \<open>
  Before \<^verbatim>\<open>setup_comment_collector\<close> the buffer is \<^verbatim>\<open>None\<close>: the handler then
  raises TypeError for every HttpError, whatever its reason.
\<close>

lemma handle_http_error_without_buffer:
  "temp_id_storage yt = None \<Longrightarrow> handle_http_error e yt env = (Inl TypeError, yt, env)"
  by (simp add: handle_http_error_def put_videoid_in_buffer_back_def)

lemma retry_loop_sleeps:
  assumes fails: "\<And>k yt env. k < max_times \<Longrightarrow> keeps_failing k yt env \<Longrightarrow>
            \<exists>yt1 env1. func yt env = Some (Inl (HttpError (raised k)), yt1, env1) \<and>
               retryable (raised k) \<and> buffer_ready yt1 \<and> sleeps env1 = sleeps env \<and>
               (\<forall>yt2 env2. handle_http_error (raised k) yt1 env1 = (Inr (), yt2, env2) \<longrightarrow>
                  keeps_failing (Suc k) yt2 env2)"
  shows "keeps_failing attempt yt env \<Longrightarrow> n = max_times - attempt \<Longrightarrow>
         \<exists>yt2 env2.
           error_api_method_loop max_times attempt func yt env = Some (Inr None, yt2, env2) \<and>
           sleeps env2 = sleeps env @ map (\<lambda>k. retry_delay (raised k)) [attempt..<max_times]"
proof (induction n arbitrary: attempt yt env)
  case 0
  then show ?case by (simp add: error_api_method_loop.simps [of max_times attempt])
next
  case (Suc n)
  then have lt: "attempt < max_times" and n: "n = max_times - Suc attempt" by arith+
  from fails [OF lt Suc.prems(1)] obtain yt1 env1 where
    f: "func yt env = Some (Inl (HttpError (raised attempt)), yt1, env1)"
       "retryable (raised attempt)" "buffer_ready yt1" "sleeps env1 = sleeps env"
    and kept: "\<forall>yt2 env2. handle_http_error (raised attempt) yt1 env1 = (Inr (), yt2, env2) \<longrightarrow>
                 keeps_failing (Suc attempt) yt2 env2"
    by blast
  from handle_retryable [OF f(3,2)] obtain yt2 env2 where
    h: "handle_http_error (raised attempt) yt1 env1 = (Inr (), yt2, env2)"
       "sleeps env2 = sleeps env1 @ [retry_delay (raised attempt)]"
    by blast
  from kept h(1) have "keeps_failing (Suc attempt) yt2 env2" by blast
  from Suc.IH [OF this n] obtain yt3 env3 where
    r: "error_api_method_loop max_times (Suc attempt) func yt2 env2 = Some (Inr None, yt3, env3)"
       "sleeps env3 = sleeps env2 @ map (\<lambda>k. retry_delay (raised k)) [Suc attempt..<max_times]"
    by blast
  from lt f(1) h(1) r(1)
  have "error_api_method_loop max_times attempt func yt env = Some (Inr None, yt3, env3)"
    by (simp add: error_api_method_loop.simps [of max_times attempt])
  moreover have "sleeps env3 = sleeps env @ map (\<lambda>k. retry_delay (raised k)) [attempt..<max_times]"
    using r(2) h(2) f(4) lt by (simp add: upt_conv_Cons)
  ultimately show ?case by blast
qed

lemmas crawl_eval =
  collect_comments_def error_api_method_def error_api_method_loop.simps RETRY_TIMES_def
  collect_comments_body_def
  collect_comments_loop.simps get_video_id_to_collect_def safe_collect_comments_video_def
  collect_comments_video_def collect_toplevel_comments_def collect_comment_replies_def
  handle_disabled_comments_error_def bookkeeping_comments_def save_comments_def
  save_response_comments_def check_comments_file_exists_def load_pickle_file_def
  save_pickle_def get_file_response_def save_videos_with_disabled_comments_def
  flush_all_tmp_storage_def handle_http_error_def put_videoid_in_buffer_back_def
  query_all_items_def init_pager_def query_loop.simps call_pager_def get_tmp_file_def
  check_quota_exceeded_tmp_def unpack_http_error_def save_tmp_data_def
  comments_pager_def replies_pager_def get_replies_comment_thread_def init_replies_dict_def
  get_comment_thread_data_def
  example_external_def ready_collector_def new_yt_entity_data_def empty_env_def
  error_with_reason_def empty_page_def refuse_all_def refuse_one_def

text \<open>
  Claim C4, as the code has it. While the wrapped method keeps raising HttpErrors that
  the handler answers with a sleep (\<open>raised k\<close> at attempt \<open>k\<close>, its reason unreadable
  or not one of the three fatal ones), and the buffer of the object is a list, the method
  is attempted exactly \<open>max_times\<close> times. After each failed attempt the handler
  sleeps: five seconds when the reason of that attempt's error can be unpacked, two
  seconds when it cannot. Then the wrapper returns to its caller without a value:
  nothing is raised. The hypothesis is stated with a condition \<open>keeps_failing\<close> that
  holds at the start and again after every handled failure.
\<close>

theorem retries_end_without_error:
  assumes fails: "\<And>k yt env. k < max_times \<Longrightarrow> keeps_failing k yt env \<Longrightarrow>
            \<exists>yt1 env1. func yt env = Some (Inl (HttpError (raised k)), yt1, env1) \<and>
               retryable (raised k) \<and> buffer_ready yt1 \<and> sleeps env1 = sleeps env \<and>
               (\<forall>yt2 env2. handle_http_error (raised k) yt1 env1 = (Inr (), yt2, env2) \<longrightarrow>
                  keeps_failing (Suc k) yt2 env2)"
      and start: "keeps_failing 0 yt env"
  shows "\<exists>yt2 env2.
           error_api_method max_times func yt env = Some (Inr None, yt2, env2) \<and>
           sleeps env2 = sleeps env @
             map (\<lambda>k. case unpack_http_error (raised k) of
                        Inl unreadable \<Rightarrow> 2 | Inr reason \<Rightarrow> 5) [0..<max_times]"
proof -
  have "(\<lambda>k. retry_delay (raised k)) =
      (\<lambda>k. case unpack_http_error (raised k) of Inl unreadable \<Rightarrow> 2 | Inr reason \<Rightarrow> 5)"
    by (simp add: retry_delay_def)
  with retry_loop_sleeps [of max_times keeps_failing func raised 0 yt env "max_times - 0",
      OF fails start]
  show ?thesis by (simp add: error_api_method_def)
qed

text \<open>
  Two instances. The comment threads of the only video are always refused with the
  reason \<^verbatim>\<open>backendError\<close>: ten sleeps of five seconds. They are always refused with
  an error whose reason cannot be unpacked: ten sleeps of two seconds.
\<close>

theorem retries_end_without_error_witness:
  "(\<exists>yt2 env2.
      collect_comments (example_external (refuse_all ''backendError'') no_channel) ''channel''
         (ready_collector [''v1'']) (empty_env ()) = Some (Inr None, yt2, env2) \<and>
      sleeps env2 = replicate 10 5) \<and>
   (\<exists>yt2 env2.
      collect_comments (example_external (\<lambda>video_id. Some unreadable_error) no_channel)
         ''channel'' (ready_collector [''v1'']) (empty_env ()) = Some (Inr None, yt2, env2) \<and>
      sleeps env2 = replicate 10 2)"
proof -
  let ?stable = "\<lambda>(k :: nat) yt (env :: unit env).
      yt = ready_collector [''v1''] \<and> tmp_files env = Map.empty"
  have start: "?stable 0 (ready_collector [''v1'']) (empty_env ())"
    by (simp add: empty_env_def)
  let ?ext = "example_external (refuse_all ''backendError'') no_channel"
  let ?e = "error_with_reason ''backendError''"
  have fails: "\<exists>yt1 env1. collect_comments_body ?ext ''channel'' yt env =
                  Some (Inl (HttpError ?e), yt1, env1) \<and>
               retryable ?e \<and> buffer_ready yt1 \<and> sleeps env1 = sleeps env \<and>
               (\<forall>yt2 env2. handle_http_error ?e yt1 env1 = (Inr (), yt2, env2) \<longrightarrow>
                  ?stable (Suc k) yt2 env2)"
    if "k < RETRY_TIMES" "?stable k yt env" for k yt env
    using that(2)
    by (simp add: crawl_eval retryable_def fatal_reason_def buffer_ready_def)
  have readable: "unpack_http_error ?e = Inr ''backendError''"
    by (simp add: unpack_http_error_def error_with_reason_def)
  let ?ext2 = "example_external (\<lambda>video_id. Some unreadable_error) no_channel"
  have fails2: "\<exists>yt1 env1. collect_comments_body ?ext2 ''channel'' yt env =
                  Some (Inl (HttpError unreadable_error), yt1, env1) \<and>
               retryable unreadable_error \<and> buffer_ready yt1 \<and> sleeps env1 = sleeps env \<and>
               (\<forall>yt2 env2. handle_http_error unreadable_error yt1 env1 = (Inr (), yt2, env2) \<longrightarrow>
                  ?stable (Suc k) yt2 env2)"
    if "k < RETRY_TIMES" "?stable k yt env" for k yt env
    using that(2)
    by (simp add: crawl_eval unreadable_error_def retryable_def fatal_reason_def buffer_ready_def)
  have unreadable: "unpack_http_error unreadable_error = Inl TypeError"
    by (simp add: unpack_http_error_def unreadable_error_def)
  have ten: "map (\<lambda>k. d) [0..<RETRY_TIMES] = replicate 10 d" for d :: nat
    by (simp add: RETRY_TIMES_def map_replicate_const)
  have no_sleeps: "sleeps (empty_env ()) = []" by (simp add: empty_env_def)
  have "\<exists>yt2 env2.
      error_api_method RETRY_TIMES (collect_comments_body ?ext ''channel'')
        (ready_collector [''v1'']) (empty_env ()) = Some (Inr None, yt2, env2) \<and>
      sleeps env2 = sleeps (empty_env ()) @
        map (\<lambda>k. case unpack_http_error ?e of Inl unreadable \<Rightarrow> 2 | Inr reason \<Rightarrow> 5)
          [0..<RETRY_TIMES]"
    by (rule retries_end_without_error [where keeps_failing = ?stable and raised = "\<lambda>k. ?e"])
      (erule (1) fails, rule start)
  then have first: "\<exists>yt2 env2.
      collect_comments ?ext ''channel'' (ready_collector [''v1'']) (empty_env ()) =
        Some (Inr None, yt2, env2) \<and> sleeps env2 = replicate 10 5"
    unfolding collect_comments_def readable by (simp add: ten no_sleeps)
  have "\<exists>yt2 env2.
      error_api_method RETRY_TIMES (collect_comments_body ?ext2 ''channel'')
        (ready_collector [''v1'']) (empty_env ()) = Some (Inr None, yt2, env2) \<and>
      sleeps env2 = sleeps (empty_env ()) @
        map (\<lambda>k. case unpack_http_error unreadable_error of
                   Inl unreadable \<Rightarrow> 2 | Inr reason \<Rightarrow> 5) [0..<RETRY_TIMES]"
    by (rule retries_end_without_error
          [where keeps_failing = ?stable and raised = "\<lambda>k. unreadable_error"])
      (erule (1) fails2, rule start)
  then have second: "\<exists>yt2 env2.
      collect_comments ?ext2 ''channel'' (ready_collector [''v1'']) (empty_env ()) =
        Some (Inr None, yt2, env2) \<and> sleeps env2 = replicate 10 2"
    unfolding collect_comments_def unreadable by (simp add: ten no_sleeps)
  from first second show ?thesis ..
qed

text \<open>
  The claim as stated fails on that input: after ten failed attempts
  \<^verbatim>\<open>collect_comments\<close> returns normally (\<open>Inr None\<close>), with the video still in the
  work list, ten requests made and ten sleeps of five seconds; no error reaches the
  caller.
\<close>

theorem exhausted_retries_counterexample:
  "collect_comments (example_external (refuse_all ''backendError'') no_channel) ''channel''
     (ready_collector [''v1'']) (empty_env ()) =
   Some (Inr None, ready_collector [''v1''],
         (empty_env ())
           \<lparr>calls := replicate 10 (''v1'', None, Inl (HttpError (error_with_reason ''backendError''))),
            sleeps := replicate 10 5,
            printed := replicate 10 (Msg_Put_Back ''v1'')\<rparr>)"
  by (simp add: crawl_eval numeral_eq_Suc)

text \<open>Whatever the wrapper raises, it is never the HttpError of the method.\<close>

lemma handle_http_error_raises:
  "handle_http_error e yt env = (Inl raised, yt1, env1) \<Longrightarrow>
     raised = TypeError \<or> raised = AttributeError \<or> (\<exists>msg. raised = AssertionError msg)"
  by (auto simp: handle_http_error_def put_videoid_in_buffer_back_def
      split: option.splits if_splits sum.splits prod.splits)

lemma error_api_method_never_http:
  "n = max_times - attempt \<Longrightarrow>
   error_api_method_loop max_times attempt func yt env = Some (Inl raised, yt2, env2) \<Longrightarrow>
     raised \<noteq> HttpError e"
proof (induction n arbitrary: attempt yt env)
  case 0
  then show ?case by (simp add: error_api_method_loop.simps [of max_times attempt])
next
  case (Suc n)
  then have lt: "attempt < max_times" and n: "n = max_times - Suc attempt" by arith+
  show ?case
  proof (cases "func yt env")
    case None
    with lt Suc.prems show ?thesis
      by (simp add: error_api_method_loop.simps [of max_times attempt])
  next
    case (Some r)
    obtain outcome yt1 env1 where r: "r = (outcome, yt1, env1)" by (cases r)
    show ?thesis
    proof (cases outcome)
      case (Inr v)
      with lt Some r Suc.prems show ?thesis
        by (simp add: error_api_method_loop.simps [of max_times attempt])
    next
      case (Inl ex)
      show ?thesis
      proof (cases ex)
        case (HttpError e')
        obtain out2 yt2' env2' where h: "handle_http_error e' yt1 env1 = (out2, yt2', env2')"
          by (cases "handle_http_error e' yt1 env1")
        show ?thesis
        proof (cases out2)
          case (Inl raised2)
          with h handle_http_error_raises have "raised2 \<noteq> HttpError e" by fastforce
          with lt Some r \<open>outcome = Inl ex\<close> HttpError h Inl Suc.prems
          show ?thesis by (simp add: error_api_method_loop.simps [of max_times attempt])
        next
          case (Inr u)
          from lt Some r \<open>outcome = Inl ex\<close> HttpError h Inr Suc.prems
          have "error_api_method_loop max_times (Suc attempt) func yt2' env2' =
                  Some (Inl raised, yt2, env2)"
            by (simp add: error_api_method_loop.simps [of max_times attempt])
          from Suc.IH [OF n this] show ?thesis .
        qed
      qed (use lt Some r Inl Suc.prems in
          \<open>auto simp: error_api_method_loop.simps [of max_times attempt]\<close>)
    qed
  qed
qed

text \<open>
  Claim C5. When the wrapped method raises an HttpError while an id is in the buffer
  (the in-flight slot) and the reason is one of the three fatal ones, the wrapper raises
  AssertionError, and in the state it leaves the id is back at the end of the work list,
  the end that \<^verbatim>\<open>get_video_id_to_collect\<close> takes from, and out of the buffer.
\<close>

theorem fatal_error_requeues_in_flight:
  assumes raised: "func yt env = Some (Inl (HttpError e), yt1, env1)"
      and in_flight: "temp_id_storage yt1 = Some (buffer @ [video_id])"
      and pending: "videos_ids_to_collect yt1 = Some ids"
      and reason: "unpack_http_error e = Inr reason"
      and fatal: "fatal_reason reason"
      and attempts: "0 < max_times"
  shows "\<exists>msg yt2 env2.
           error_api_method max_times func yt env = Some (Inl (AssertionError msg), yt2, env2) \<and>
           videos_ids_to_collect yt2 = Some (ids @ [video_id]) \<and>
           temp_id_storage yt2 = Some buffer \<and>
           fst (get_video_id_to_collect yt2) = Inr video_id"
proof -
  have pb: "put_videoid_in_buffer_back yt1 env1 =
          (Inr (), yt1\<lparr>temp_id_storage := Some buffer,
                       videos_ids_to_collect := Some (ids @ [video_id])\<rparr>,
           env1\<lparr>printed := printed env1 @ [Msg_Put_Back video_id]\<rparr>)"
    using in_flight pending by (simp add: put_videoid_in_buffer_back_def)
  let ?yt2 = "yt1\<lparr>temp_id_storage := Some buffer,
                       videos_ids_to_collect := Some (ids @ [video_id])\<rparr>"
  let ?env2 = "env1\<lparr>printed := printed env1 @ [Msg_Put_Back video_id]\<rparr>"
  from pb reason fatal obtain msg where
    h: "handle_http_error e yt1 env1 = (Inl (AssertionError msg), ?yt2, ?env2)"
    by (auto simp: handle_http_error_def fatal_reason_def)
  from attempts raised h
  have "error_api_method max_times func yt env = Some (Inl (AssertionError msg), ?yt2, ?env2)"
    by (simp add: error_api_method_def error_api_method_loop.simps [of max_times 0])
  moreover have "fst (get_video_id_to_collect ?yt2) = Inr video_id"
    by (cases ids) (simp_all add: get_video_id_to_collect_def)
  ultimately show ?thesis by simp
qed

text \<open>
  The example of the specification: with the work list v1, v2, v3 the first video taken
  is v3; its comment threads are refused with the reason \<^verbatim>\<open>forbidden\<close>; after the
  abort the work list is v1, v2, v3 again and v3 is the next id taken.
\<close>

theorem fatal_error_requeues_in_flight_witness:
  "\<exists>msg yt2 env2.
     collect_comments (example_external (refuse_one ''v3'' ''forbidden'') no_channel) ''channel''
        (ready_collector [''v1'', ''v2'', ''v3'']) (empty_env ()) =
       Some (Inl (AssertionError msg), yt2, env2) \<and>
     videos_ids_to_collect yt2 = Some [''v1'', ''v2'', ''v3''] \<and>
     temp_id_storage yt2 = Some [] \<and>
     fst (get_video_id_to_collect yt2) = Inr ''v3''"
proof -
  let ?ext = "example_external (refuse_one ''v3'' ''forbidden'') no_channel"
  obtain yt1 env1 where raised: "collect_comments_body ?ext ''channel''
        (ready_collector [''v1'', ''v2'', ''v3'']) (empty_env ()) =
       Some (Inl (HttpError (error_with_reason ''forbidden'')), yt1, env1)"
    and in_flight: "temp_id_storage yt1 = Some ([] @ [''v3''])"
    and pending: "videos_ids_to_collect yt1 = Some [''v1'', ''v2'']"
    by (simp add: crawl_eval)
  have reason: "unpack_http_error (error_with_reason ''forbidden'') = Inr ''forbidden''"
    by (simp add: unpack_http_error_def error_with_reason_def)
  have fatal: "fatal_reason ''forbidden''" by (simp add: fatal_reason_def)
  have attempts: "0 < RETRY_TIMES" by (simp add: RETRY_TIMES_def)
  from fatal_error_requeues_in_flight
    [where func = "collect_comments_body ?ext ''channel''"
       and yt = "ready_collector [''v1'', ''v2'', ''v3'']" and env = "empty_env ()",
     OF raised in_flight pending reason fatal attempts]
  show ?thesis by (simp add: collect_comments_def)
qed

section \<open>Collecting the comments of one video\<close>

text \<open>
  Requests and checkpoints of the pager touch neither the raw-data folder nor the printed
  lines, and collecting one video leaves the work list, the buffer and the counter alone.
\<close>

lemma env_kept_refl [simp]: "env_kept env env"
  by (simp add: env_kept_def)

lemma env_kept_trans: "env_kept env env1 \<Longrightarrow> env_kept env1 env2 \<Longrightarrow> env_kept env env2"
  by (simp add: env_kept_def)

lemma frontier_kept_refl [simp]: "frontier_kept yt yt"
  by (simp add: frontier_kept_def)

lemma frontier_kept_trans:
  "frontier_kept yt yt1 \<Longrightarrow> frontier_kept yt1 yt2 \<Longrightarrow> frontier_kept yt yt2"
  by (simp add: frontier_kept_def)

lemma call_pager_kept: "call_pager f item token env = (r, env1) \<Longrightarrow> env_kept env env1"
  by (auto simp: call_pager_def env_kept_def split: prod.splits)

lemma save_tmp_data_kept [simp]: "env_kept env (save_tmp_data item data env)"
  by (simp add: save_tmp_data_def env_kept_def)

lemma check_quota_kept:
  "check_quota_exceeded_tmp e item data env = (raised, env1) \<Longrightarrow> env_kept env env1"
  by (auto simp: check_quota_exceeded_tmp_def split: sum.splits if_splits)

lemma check_quota_raises:
  "check_quota_exceeded_tmp e item data env = (raised, env1) \<Longrightarrow> raised = HttpError e"
  by (auto simp: check_quota_exceeded_tmp_def split: sum.splits if_splits)

lemma query_loop_kept:
  assumes ret: "query_loop f item pd env = Some y"
  shows "env_kept env (snd y)"
proof (rule query_loop.raw_induct [where P = "\<lambda>f item pd env y. env_kept env (snd y)", OF _ ret])
  fix loop :: "'a pager_func \<Rightarrow> string \<Rightarrow> data_class_pager \<Rightarrow> 'a env \<Rightarrow> ((exn + response list) \<times> 'a env) option"
  fix f item pd env y
  assume IH: "\<And>f item pd env y. loop f item pd env = Some y \<Longrightarrow> env_kept env (snd y)"
  assume eq: "(if all_items_collected pd then Some (Inr (responses pd), env)
      else
        (case call_pager f item (next_page_token pd) env of
           (Inl (HttpError e), env1) \<Rightarrow>
             (case check_quota_exceeded_tmp e item (Pickle_Pager pd) env1 of
                (raised, env2) \<Rightarrow> Some (Inl raised, env2))
         | (Inl other, env1) \<Rightarrow> Some (Inl other, env1)
         | (Inr response, env1) \<Rightarrow>
             (case nextPageToken response of
                Some token \<Rightarrow>
                  loop f item
                    (pd\<lparr>responses := responses pd @ [response],
                       num_requests := num_requests pd + 1,
                       next_page_token := Some token\<rparr>) env1
              | None \<Rightarrow>
                  loop f item
                    (pd\<lparr>responses := responses pd @ [response],
                       num_requests := num_requests pd + 1,
                       all_items_collected := True\<rparr>)
                    (save_tmp_data item
                       (Pickle_Pager
                          (pd\<lparr>responses := responses pd @ [response],
                             num_requests := num_requests pd + 1,
                             all_items_collected := True\<rparr>)) env1)))) = Some y"
  show "env_kept env (snd y)"
  proof (cases "all_items_collected pd")
    case True
    with eq show ?thesis by auto
  next
    case False
    obtain r env1 where call: "call_pager f item (next_page_token pd) env = (r, env1)"
      by (cases "call_pager f item (next_page_token pd) env")
    from call_pager_kept [OF call] have k1: "env_kept env env1" .
    show ?thesis
    proof (cases r)
      case (Inl ex)
      show ?thesis
      proof (cases ex)
        case (HttpError e)
        obtain raised env2 where
          c: "check_quota_exceeded_tmp e item (Pickle_Pager pd) env1 = (raised, env2)"
          by (cases "check_quota_exceeded_tmp e item (Pickle_Pager pd) env1")
        from eq False call Inl HttpError c have "snd y = env2" by auto
        with check_quota_kept [OF c] k1 show ?thesis by (auto intro: env_kept_trans)
      qed (use eq False call Inl k1 in auto)
    next
      case (Inr page)
      show ?thesis
      proof (cases "nextPageToken page")
        case None
        let ?pd2 = "pd\<lparr>responses := responses pd @ [page], num_requests := num_requests pd + 1, all_items_collected := True\<rparr>"
        from eq False call Inr None
        have "loop f item ?pd2 (save_tmp_data item (Pickle_Pager ?pd2) env1) = Some y" by simp
        from IH [OF this] have "env_kept (save_tmp_data item (Pickle_Pager ?pd2) env1) (snd y)" .
        with k1 show ?thesis
          using env_kept_trans save_tmp_data_kept by blast
      next
        case (Some t)
        from eq False call Inr Some
        have "loop f item (pd\<lparr>responses := responses pd @ [page], num_requests := num_requests pd + 1, next_page_token := Some t\<rparr>) env1 = Some y" by simp
        from IH [OF this] k1 show ?thesis by (rule env_kept_trans [rotated])
      qed
    qed
  qed
qed

lemma query_all_items_kept:
  "query_all_items item f env = Some (r, env1) \<Longrightarrow> env_kept env env1"
  using query_loop_kept [of f item _ env "(r, env1)"]
  by (auto simp: query_all_items_def split: sum.splits)

lemma replies_loop_kept:
  "replies_loop f video rows ctr env = Some (r, env1) \<Longrightarrow> env_kept env env1"
proof (induction rows arbitrary: ctr env)
  case Nil
  then show ?case by simp
next
  case (Cons row rows)
  show ?case
  proof (cases "cd_total_reply_count row")
    case None
    with Cons.prems show ?thesis by simp
  next
    case (Some n)
    show ?thesis
    proof (cases "n > 0 \<and> cd_thread_id row \<notin> fst ` set ctr")
      case False
      with Cons.prems Some have "replies_loop f video rows ctr env = Some (r, env1)"
        by (auto split: if_splits)
      then show ?thesis by (rule Cons.IH)
    next
      case True
      show ?thesis
      proof (cases "query_all_items (cd_thread_id row) f env")
        case None
        with Cons.prems Some True show ?thesis by simp
      next
        case q: (Some res)
        obtain out env2 where res: "res = (out, env2)" by (cases res)
        from query_all_items_kept q res have k: "env_kept env env2" by blast
        show ?thesis
        proof (cases out)
          case (Inr pages)
          with Cons.prems Some True q res
          have "replies_loop f video rows (ctr @ [(cd_thread_id row, pages)]) env2 = Some (r, env1)"
            by simp
          from Cons.IH [OF this] k show ?thesis by (rule env_kept_trans [rotated])
        next
          case (Inl ex)
          show ?thesis
          proof (cases ex)
            case (HttpError e)
            obtain raised env3 where c: "check_quota_exceeded_tmp e (video @ ''-replies'')
                (Pickle_Replies ctr) env2 = (raised, env3)"
              by (cases "check_quota_exceeded_tmp e (video @ ''-replies'') (Pickle_Replies ctr) env2")
            with Cons.prems Some True q res Inl HttpError have "env1 = env3" by simp
            with check_quota_kept [OF c] k show ?thesis by (auto intro: env_kept_trans)
          qed (use Cons.prems Some True q res Inl k in auto)
        qed
      qed
    qed
  qed
qed

lemma get_replies_kept:
  "get_replies_comment_thread video rows f env = Some (r, env1) \<Longrightarrow> env_kept env env1"
  using replies_loop_kept [of f video rows _ env r env1]
  by (auto simp: get_replies_comment_thread_def split: sum.splits)

lemma collect_toplevel_kept:
  "collect_toplevel_comments ext v yt env = Some (r, yt1, env1) \<Longrightarrow>
     env_kept env env1 \<and> frontier_kept yt yt1 \<and>
     videos_with_comments_disabled yt1 = videos_with_comments_disabled yt \<and>
     responses_replies yt1 = responses_replies yt"
  using query_all_items_kept [of v "comments_pager ext" env]
  by (auto simp: collect_toplevel_comments_def frontier_kept_def
      split: option.splits sum.splits prod.splits)

lemma collect_replies_kept:
  "collect_comment_replies ext v yt env = Some (r, yt1, env1) \<Longrightarrow>
     env_kept env env1 \<and> frontier_kept yt yt1 \<and>
     videos_with_comments_disabled yt1 = videos_with_comments_disabled yt \<and>
     responses_toplevel yt1 = responses_toplevel yt"
  using get_replies_kept [of v _ "replies_pager ext" env]
  by (auto simp: collect_comment_replies_def frontier_kept_def
      split: option.splits sum.splits prod.splits if_splits)

lemma collect_comments_video_kept:
  assumes "collect_comments_video ext v yt env = Some (r, yt1, env1)"
  shows "env_kept env env1 \<and> frontier_kept yt yt1 \<and>
     videos_with_comments_disabled yt1 = videos_with_comments_disabled yt"
proof (cases "collect_toplevel_comments ext v yt env")
  case None
  with assms show ?thesis by (simp add: collect_comments_video_def)
next
  case (Some res)
  obtain out y e where res: "res = (out, y, e)" by (cases res)
  note top = collect_toplevel_kept [OF Some [unfolded res]]
  show ?thesis
  proof (cases out)
    case (Inl ex)
    with assms Some res top show ?thesis by (simp add: collect_comments_video_def)
  next
    case (Inr u)
    with assms Some res have "collect_comment_replies ext v y e = Some (r, yt1, env1)"
      by (simp add: collect_comments_video_def)
    from collect_replies_kept [OF this] top show ?thesis
      by (auto intro: env_kept_trans frontier_kept_trans)
  qed
qed

lemma safe_collect_kept:
  assumes "safe_collect_comments_video ext v yt env = Some (r, yt1, env1)"
  shows "env_kept env env1 \<and> frontier_kept yt yt1 \<and>
     (videos_with_comments_disabled yt1 = videos_with_comments_disabled yt \<or>
      (\<exists>disabled. videos_with_comments_disabled yt = Some disabled \<and>
         videos_with_comments_disabled yt1 = Some (disabled @ [v]) \<and> r = Inr ()))"
proof (cases "collect_comments_video ext v yt env")
  case None
  with assms show ?thesis by (simp add: safe_collect_comments_video_def)
next
  case (Some res)
  obtain out y e where res: "res = (out, y, e)" by (cases res)
  note k = collect_comments_video_kept [OF Some [unfolded res]]
  show ?thesis
  proof (cases out)
    case (Inr u)
    with assms Some res k show ?thesis by (simp add: safe_collect_comments_video_def)
  next
    case (Inl ex)
    show ?thesis
    proof (cases ex)
      case (HttpError err)
      with assms Some res Inl k show ?thesis
        by (auto simp: safe_collect_comments_video_def handle_disabled_comments_error_def
            frontier_kept_def split: sum.splits if_splits option.splits)
    qed (use assms Some res Inl k in \<open>auto simp: safe_collect_comments_video_def\<close>)
  qed
qed

subsection \<open>Videos with disabled comments\<close>

lemma refused_query:
  assumes fresh: "tmp_files env (get_tmp_file video_id) = None"
      and refused: "pager_func video_id None (world env) = (Inl (HttpError e), w)"
      and reason: "unpack_http_error e = Inr reason" and other: "reason \<noteq> ''quotaExceeded''"
  shows "query_all_items video_id pager_func env =
           Some (Inl (HttpError e),
                 env\<lparr>world := w, calls := calls env @ [(video_id, None, Inl (HttpError e))]\<rparr>)"
  using assms
  by (simp add: query_all_items_def init_pager_def query_loop.simps call_pager_def
      check_quota_exceeded_tmp_def)

lemma disabled_video_collect:
  assumes disabled: "videos_with_comments_disabled yt = Some disabled"
      and fresh: "tmp_files env (get_tmp_file video_id) = None"
      and refused: "comment_threads_list ext video_id None (world env) = (Inl (HttpError e), w)"
      and reason: "unpack_http_error e = Inr ''commentsDisabled''"
  shows "safe_collect_comments_video ext video_id yt env =
           Some (Inr (), yt\<lparr>videos_with_comments_disabled := Some (disabled @ [video_id])\<rparr>,
                 env\<lparr>world := w, calls := calls env @ [(video_id, None, Inl (HttpError e))]\<rparr>)"
proof -
  have "query_all_items video_id (comments_pager ext) env =
           Some (Inl (HttpError e),
                 env\<lparr>world := w, calls := calls env @ [(video_id, None, Inl (HttpError e))]\<rparr>)"
    using refused_query [of env video_id "comments_pager ext" e w, OF fresh _ reason] refused
    by (simp add: comments_pager_def)
  then show ?thesis
    using disabled reason
    by (simp add: safe_collect_comments_video_def collect_comments_video_def
        collect_toplevel_comments_def handle_disabled_comments_error_def)
qed

lemma bookkeeping_ok:
  assumes "bookkeeping_comments channel video_id yt env = (Inr (), yt3, env3)"
      and "temp_id_storage yt = Some (buffer @ [x])"
  shows "\<exists>n collected. yt_i yt = Some n \<and> collected_video_ids yt = Some collected \<and>
           yt3 = yt\<lparr>collected_video_ids := Some (collected @ [video_id]),
                     temp_id_storage := Some buffer, yt_i := Some (n + 1)\<rparr>"
proof -
  obtain b bs where bs: "buffer @ [x] = b # bs" by (cases buffer) simp_all
  then have "butlast (b # bs) = buffer" by (metis butlast_snoc)
  with assms bs show ?thesis
    by (auto simp: bookkeeping_comments_def simp del: butlast.simps
        split: option.splits sum.splits prod.splits if_splits)
qed

text \<open>
  Claim C7. A video whose first request for comment threads is refused with the reason
  \<^verbatim>\<open>commentsDisabled\<close> is appended to the list of videos with disabled comments;
  \<^verbatim>\<open>safe_collect_comments_video\<close> returns normally, every other attribute of the
  object is as it was after the id was taken, and the loop goes on with the bookkeeping
  of the video and then with the remaining work list.
\<close>

theorem disabled_comments_are_recorded_and_skipped:
  assumes pending: "videos_ids_to_collect yt = Some (rest @ [video_id])"
      and buffer: "temp_id_storage yt = Some buffer"
      and disabled: "videos_with_comments_disabled yt = Some disabled"
      and fresh: "tmp_files env (get_tmp_file video_id) = None"
      and refused: "comment_threads_list ext video_id None (world env) = (Inl (HttpError e), w)"
      and reason: "unpack_http_error e = Inr ''commentsDisabled''"
  shows "\<exists>yt2 env2.
           get_video_id_to_collect yt =
             (Inr video_id,
              yt\<lparr>videos_ids_to_collect := Some rest,
                  temp_id_storage := Some (buffer @ [video_id])\<rparr>) \<and>
           safe_collect_comments_video ext video_id
              (yt\<lparr>videos_ids_to_collect := Some rest,
                   temp_id_storage := Some (buffer @ [video_id])\<rparr>) env = Some (Inr (), yt2, env2) \<and>
           yt2 = yt\<lparr>videos_ids_to_collect := Some rest,
                     temp_id_storage := Some (buffer @ [video_id]),
                     videos_with_comments_disabled := Some (disabled @ [video_id])\<rparr> \<and>
           env2 = env\<lparr>world := w, calls := calls env @ [(video_id, None, Inl (HttpError e))]\<rparr> \<and>
           collect_comments_loop ext channel yt env =
             (case bookkeeping_comments channel video_id yt2 env2 of
                (Inl raised, yt3, env3) \<Rightarrow> Some (Inl raised, yt3, env3)
              | (Inr u, yt3, env3) \<Rightarrow> collect_comments_loop ext channel yt3 env3) \<and>
           (\<forall>yt3 env3. bookkeeping_comments channel video_id yt2 env2 = (Inr (), yt3, env3) \<longrightarrow>
              videos_ids_to_collect yt3 = Some rest \<and> temp_id_storage yt3 = Some buffer \<and>
              videos_with_comments_disabled yt3 = Some (disabled @ [video_id]) \<and>
              responses_toplevel yt3 = responses_toplevel yt \<and>
              responses_replies yt3 = responses_replies yt)"
proof -
  let ?yt1 = "yt\<lparr>videos_ids_to_collect := Some rest,
                  temp_id_storage := Some (buffer @ [video_id])\<rparr>"
  let ?yt2 = "?yt1\<lparr>videos_with_comments_disabled := Some (disabled @ [video_id])\<rparr>"
  let ?env2 = "env\<lparr>world := w, calls := calls env @ [(video_id, None, Inl (HttpError e))]\<rparr>"
  have taken: "get_video_id_to_collect yt = (Inr video_id, ?yt1)"
    using pending buffer by (cases rest) (simp_all add: get_video_id_to_collect_def)
  have collected: "safe_collect_comments_video ext video_id ?yt1 env = Some (Inr (), ?yt2, ?env2)"
    using disabled_video_collect [of ?yt1 disabled env video_id ext e w] disabled fresh refused
      reason by simp
  have nonempty: "\<exists>v vs. rest @ [video_id] = v # vs" by (cases rest) simp_all
  then obtain v vs where "videos_ids_to_collect yt = Some (v # vs)" using pending by auto
  then have continues: "collect_comments_loop ext channel yt env =
             (case bookkeeping_comments channel video_id ?yt2 ?env2 of
                (Inl raised, yt3, env3) \<Rightarrow> Some (Inl raised, yt3, env3)
              | (Inr u, yt3, env3) \<Rightarrow> collect_comments_loop ext channel yt3 env3)"
    using taken collected by (subst collect_comments_loop.simps) simp
  have after: "videos_ids_to_collect yt3 = Some rest \<and> temp_id_storage yt3 = Some buffer \<and>
              videos_with_comments_disabled yt3 = Some (disabled @ [video_id]) \<and>
              responses_toplevel yt3 = responses_toplevel yt \<and>
              responses_replies yt3 = responses_replies yt"
    if "bookkeeping_comments channel video_id ?yt2 ?env2 = (Inr (), yt3, env3)" for yt3 env3
    using bookkeeping_ok [OF that, of buffer video_id] by auto
  from taken collected continues after show ?thesis by blast
qed

theorem disabled_comments_are_recorded_and_skipped_witness:
  "\<exists>yt1 env1.
     collect_comments_loop (example_external (refuse_one ''v2'' ''commentsDisabled'') no_channel)
        ''channel'' (ready_collector [''v1'', ''v2'']) (empty_env ()) = Some (Inr (), yt1, env1) \<and>
     videos_with_comments_disabled yt1 = Some [''v2''] \<and>
     collected_video_ids yt1 = Some [''v2'', ''v1''] \<and>
     videos_ids_to_collect yt1 = Some [] \<and>
     map fst (calls env1) = [''v2'', ''v1'']"
proof -
  let ?ext = "example_external (refuse_one ''v2'' ''commentsDisabled'') no_channel"
  let ?e = "error_with_reason ''commentsDisabled''"
  have pending: "videos_ids_to_collect (ready_collector [''v1'', ''v2'']) = Some ([''v1''] @ [''v2''])"
    and buffer: "temp_id_storage (ready_collector [''v1'', ''v2'']) = Some []"
    and disabled: "videos_with_comments_disabled (ready_collector [''v1'', ''v2'']) = Some []"
    by (simp_all add: ready_collector_def new_yt_entity_data_def)
  have fresh: "tmp_files (empty_env ()) (get_tmp_file ''v2'') = None"
    by (simp add: empty_env_def)
  have refused: "comment_threads_list ?ext ''v2'' None (world (empty_env ())) =
      (Inl (HttpError ?e), ())"
    by (simp add: example_external_def refuse_one_def)
  have reason: "unpack_http_error ?e = Inr ''commentsDisabled''"
    by (simp add: unpack_http_error_def error_with_reason_def)
  from disabled_comments_are_recorded_and_skipped
    [OF pending buffer disabled fresh refused reason, of "''channel''"]
  show ?thesis
    by (simp add: crawl_eval)
qed

subsection \<open>The four lists of video ids\<close>

lemma frontier_invI:
  assumes "videos_ids_to_collect yt = Some pending" "temp_id_storage yt = Some in_flight"
    "collected_video_ids yt = Some collected" "videos_with_comments_disabled yt = Some disabled"
    "distinct (pending @ in_flight @ collected)"
    "set (pending @ in_flight @ collected) = set ids" "set disabled \<subseteq> set ids"
  shows "frontier_inv ids yt"
  using assms by (simp add: frontier_inv_def)

lemma frontier_invE:
  assumes "frontier_inv ids yt"
  obtains pending in_flight collected disabled where
    "videos_ids_to_collect yt = Some pending" "temp_id_storage yt = Some in_flight"
    "collected_video_ids yt = Some collected" "videos_with_comments_disabled yt = Some disabled"
    "distinct (pending @ in_flight @ collected)"
    "set (pending @ in_flight @ collected) = set ids" "set disabled \<subseteq> set ids"
  using assms by (auto simp: frontier_inv_def split: option.splits)

lemma take_keeps_frontier:
  assumes inv: "frontier_inv ids yt" and nonempty: "videos_ids_to_collect yt = Some (v # vs)"
  shows "frontier_inv ids (snd (get_video_id_to_collect yt))"
proof -
  from inv obtain pending in_flight collected disabled where
    f: "videos_ids_to_collect yt = Some pending" "temp_id_storage yt = Some in_flight"
    "collected_video_ids yt = Some collected" "videos_with_comments_disabled yt = Some disabled"
    "distinct (pending @ in_flight @ collected)"
    "set (pending @ in_flight @ collected) = set ids" "set disabled \<subseteq> set ids"
    by (rule frontier_invE)
  have "v # vs = butlast (v # vs) @ [last (v # vs)]"
    by (rule append_butlast_last_id [symmetric]) simp
  with f(1) nonempty have p: "pending = butlast (v # vs) @ [last (v # vs)]" by simp
  let ?yt1 = "yt\<lparr>videos_ids_to_collect := Some (butlast (v # vs)),
                  temp_id_storage := Some (in_flight @ [last (v # vs)])\<rparr>"
  have "get_video_id_to_collect yt = (Inr (last (v # vs)), ?yt1)"
    using nonempty f(2) by (simp add: get_video_id_to_collect_def)
  moreover have "frontier_inv ids ?yt1"
  proof (rule frontier_invI)
    show "distinct (butlast (v # vs) @ (in_flight @ [last (v # vs)]) @ collected)"
      using f(5) by (subst (asm) p) auto
    show "set (butlast (v # vs) @ (in_flight @ [last (v # vs)]) @ collected) = set ids"
      using f(6) by (subst (asm) p) auto
  qed (use f in simp_all)
  ultimately show ?thesis by simp
qed

lemma collect_keeps_frontier:
  assumes inv: "frontier_inv ids yt" and known: "video_id \<in> set ids"
      and run: "safe_collect_comments_video ext video_id yt env = Some (outcome, yt1, env1)"
  shows "frontier_inv ids yt1"
proof -
  from inv obtain pending in_flight collected disabled where
    f: "videos_ids_to_collect yt = Some pending" "temp_id_storage yt = Some in_flight"
    "collected_video_ids yt = Some collected" "videos_with_comments_disabled yt = Some disabled"
    "distinct (pending @ in_flight @ collected)"
    "set (pending @ in_flight @ collected) = set ids" "set disabled \<subseteq> set ids"
    by (rule frontier_invE)
  note kept = safe_collect_kept [OF run]
  from kept have k: "frontier_kept yt yt1" by (rule conjunct2 [THEN conjunct1])
  from kept have "videos_with_comments_disabled yt1 = videos_with_comments_disabled yt \<or>
      (\<exists>disabled. videos_with_comments_disabled yt = Some disabled \<and>
         videos_with_comments_disabled yt1 = Some (disabled @ [video_id]) \<and> outcome = Inr ())"
    by (rule conjunct2 [THEN conjunct2])
  then have "\<exists>disabled1. videos_with_comments_disabled yt1 = Some disabled1 \<and>
      set disabled1 \<subseteq> set ids"
  proof
    assume "videos_with_comments_disabled yt1 = videos_with_comments_disabled yt"
    with f(4,7) show ?thesis by simp
  next
    assume "\<exists>disabled. videos_with_comments_disabled yt = Some disabled \<and>
         videos_with_comments_disabled yt1 = Some (disabled @ [video_id]) \<and> outcome = Inr ()"
    with f(4,7) known show ?thesis by auto
  qed
  then obtain disabled1 where d: "videos_with_comments_disabled yt1 = Some disabled1"
    "set disabled1 \<subseteq> set ids" by blast
  from k f(1,2,3) have "videos_ids_to_collect yt1 = Some pending"
    "temp_id_storage yt1 = Some in_flight" "collected_video_ids yt1 = Some collected"
    by (simp_all add: frontier_kept_def)
  from this d(1) f(5,6) d(2) show ?thesis by (rule frontier_invI)
qed

lemma bookkeeping_keeps_frontier:
  assumes inv: "frontier_inv ids yt" and buffer: "temp_id_storage yt = Some (b # bs)"
      and run: "bookkeeping_comments channel (last (b # bs)) yt env = (outcome, yt1, env1)"
  shows "frontier_inv ids yt1"
proof -
  from inv obtain pending in_flight collected disabled where
    f: "videos_ids_to_collect yt = Some pending" "temp_id_storage yt = Some in_flight"
    "collected_video_ids yt = Some collected" "videos_with_comments_disabled yt = Some disabled"
    "distinct (pending @ in_flight @ collected)"
    "set (pending @ in_flight @ collected) = set ids" "set disabled \<subseteq> set ids"
    by (rule frontier_invE)
  have "b # bs = butlast (b # bs) @ [last (b # bs)]"
    by (rule append_butlast_last_id [symmetric]) simp
  with buffer f(2) have i: "in_flight = butlast (b # bs) @ [last (b # bs)]" by simp
  from run buffer f(3) consider "yt1 = yt"
    | n where "yt1 = yt\<lparr>collected_video_ids := Some (collected @ [last (b # bs)]),
                         temp_id_storage := Some (butlast (b # bs)), yt_i := Some (n + 1)\<rparr>"
    by (auto simp: bookkeeping_comments_def simp del: butlast.simps last.simps
        split: option.splits sum.splits prod.splits if_splits)
  then show ?thesis
  proof cases
    case 1
    with inv show ?thesis by simp
  next
    case 2
    show ?thesis unfolding 2
    proof (rule frontier_invI)
      show "distinct (pending @ butlast (b # bs) @ collected @ [last (b # bs)])"
        using f(5) by (subst (asm) i) auto
      show "set (pending @ butlast (b # bs) @ collected @ [last (b # bs)]) = set ids"
        using f(6) by (subst (asm) i) auto
    qed (use f in simp_all)
  qed
qed

lemma put_back_keeps_frontier:
  assumes inv: "frontier_inv ids yt"
      and run: "put_videoid_in_buffer_back yt env = (outcome, yt1, env1)"
  shows "frontier_inv ids yt1"
proof -
  from inv obtain pending in_flight collected disabled where
    f: "videos_ids_to_collect yt = Some pending" "temp_id_storage yt = Some in_flight"
    "collected_video_ids yt = Some collected" "videos_with_comments_disabled yt = Some disabled"
    "distinct (pending @ in_flight @ collected)"
    "set (pending @ in_flight @ collected) = set ids" "set disabled \<subseteq> set ids"
    by (rule frontier_invE)
  show ?thesis
  proof (cases "in_flight = []")
    case True
    with run f(2) have "yt1 = yt" by (simp add: put_videoid_in_buffer_back_def)
    with inv show ?thesis by simp
  next
    case False
    then have i: "in_flight = butlast in_flight @ [last in_flight]" by simp
    from False run f(1,2)
    have y: "yt1 = yt\<lparr>temp_id_storage := Some (butlast in_flight),
                      videos_ids_to_collect := Some (pending @ [last in_flight])\<rparr>"
      by (auto simp: put_videoid_in_buffer_back_def)
    show ?thesis unfolding y
    proof (rule frontier_invI)
      show "distinct ((pending @ [last in_flight]) @ butlast in_flight @ collected)"
        using f(5) by (subst (asm) i) auto
      show "set ((pending @ [last in_flight]) @ butlast in_flight @ collected) = set ids"
        using f(6) by (subst (asm) i) auto
    qed (use f in simp_all)
  qed
qed

lemma handle_keeps_frontier:
  assumes inv: "frontier_inv ids yt"
      and run: "handle_http_error e yt env = (outcome, yt1, env1)"
  shows "frontier_inv ids yt1"
proof -
  obtain r y e1 where pb: "put_videoid_in_buffer_back yt env = (r, y, e1)"
    by (cases "put_videoid_in_buffer_back yt env")
  from put_back_keeps_frontier [OF inv pb] have "frontier_inv ids y" .
  moreover from run pb have "yt1 = y"
    by (auto simp: handle_http_error_def split: sum.splits if_splits)
  ultimately show ?thesis by simp
qed

lemma crawl_step_keeps_frontier:
  assumes inv: "frontier_inv ids yt"
      and step: "crawl_step ext channel move (yt, env) = Some (yt1, env1)"
  shows "frontier_inv ids yt1"
proof (cases move)
  case Take
  with step obtain v vs where "videos_ids_to_collect yt = Some (v # vs)"
    and "yt1 = snd (get_video_id_to_collect yt)"
    by (auto simp: crawl_step_def split: option.splits list.splits)
  with take_keeps_frontier [OF inv] show ?thesis by simp
next
  case Collect
  with step obtain b bs outcome where buffer: "temp_id_storage yt = Some (b # bs)"
    and run: "safe_collect_comments_video ext (last (b # bs)) yt env = Some (outcome, yt1, env1)"
    by (auto simp: crawl_step_def simp del: last.simps split: option.splits list.splits)
  have "last (b # bs) \<in> set (b # bs)" by (rule last_in_set) simp
  with inv buffer have "last (b # bs) \<in> set ids"
    by (auto simp: frontier_inv_def simp del: last.simps split: option.splits)
  from collect_keeps_frontier [OF inv this run] show ?thesis .
next
  case Bookkeep
  with step obtain b bs outcome where "temp_id_storage yt = Some (b # bs)"
    and "bookkeeping_comments channel (last (b # bs)) yt env = (outcome, yt1, env1)"
    by (auto simp: crawl_step_def simp del: last.simps split: option.splits list.splits prod.splits)
  with bookkeeping_keeps_frontier [OF inv] show ?thesis by blast
next
  case (Put_Back e)
  with step obtain outcome where "handle_http_error e yt env = (outcome, yt1, env1)"
    by (auto simp: crawl_step_def split: prod.splits)
  with handle_keeps_frontier [OF inv] show ?thesis by blast
qed

lemma crawl_steps_keep_frontier:
  "frontier_inv ids (fst state) \<Longrightarrow> crawl_steps ext channel moves state = Some state1 \<Longrightarrow>
     frontier_inv ids (fst state1)"
proof (induction moves arbitrary: state)
  case Nil
  then show ?case by simp
next
  case (Cons move moves)
  from Cons.prems(2) obtain next_state where
    s: "crawl_step ext channel move state = Some next_state"
    and r: "crawl_steps ext channel moves next_state = Some state1"
    by (auto split: option.splits)
  from crawl_step_keeps_frontier [of ids "fst state" ext channel move "snd state"
      "fst next_state" "snd next_state"] Cons.prems(1) s
  have "frontier_inv ids (fst next_state)" by simp
  from Cons.IH [OF this r] show ?case .
qed

text \<open>The start of a crawl: the setup after the work list is read.\<close>

lemma frontier_inv_start:
  assumes "df_m yt = Some df" and "distinct (video_ids_column df)"
      and "get_videoids_to_collect yt = (Inr (), yt1)"
      and "setup_comment_collector yt1 = (Inr (), yt2)"
  shows "frontier_inv (rev (video_ids_column df)) yt2"
  using assms
  by (auto simp: get_videoids_to_collect_def setup_comment_collector_def frontier_inv_def)

text \<open>One round of the loop is the three steps, in this order.\<close>

lemma loop_round_is_three_steps:
  assumes "videos_ids_to_collect yt = Some (v # vs)"
      and "get_video_id_to_collect yt = (Inr video_id, yt1)"
      and "safe_collect_comments_video ext video_id yt1 env = Some (Inr (), yt2, env2)"
      and "bookkeeping_comments channel video_id yt2 env2 = (Inr (), yt3, env3)"
  shows "crawl_steps ext channel [Take, Collect, Bookkeep] (yt, env) = Some (yt3, env3) \<and>
         collect_comments_loop ext channel yt env = collect_comments_loop ext channel yt3 env3"
proof -
  from assms(1,2) obtain buffer where t1: "temp_id_storage yt1 = Some (buffer @ [video_id])"
    by (auto simp: get_video_id_to_collect_def split: option.splits)
  from safe_collect_kept [OF assms(3)] t1
  have t2: "temp_id_storage yt2 = Some (buffer @ [video_id])" by (simp add: frontier_kept_def)
  obtain b bs where bs: "buffer @ [video_id] = b # bs" by (cases buffer) simp_all
  then have l: "last (b # bs) = video_id" by (metis last_snoc)
  have "crawl_steps ext channel [Take, Collect, Bookkeep] (yt, env) = Some (yt3, env3)"
    using assms t1 t2 bs l by (simp add: crawl_step_def del: last.simps)
  moreover have "collect_comments_loop ext channel yt env = collect_comments_loop ext channel yt3 env3"
    using assms by (subst collect_comments_loop.simps) simp
  ultimately show ?thesis ..
qed

text \<open>
  Claim C6, as the code has it. When every known id is in exactly one of
  \<^verbatim>\<open>videos_ids_to_collect\<close>, \<^verbatim>\<open>temp_id_storage\<close> and
  \<^verbatim>\<open>collected_video_ids\<close>, and \<^verbatim>\<open>videos_with_comments_disabled\<close> holds
  known ids only, the same is true after every sequence of steps of the crawl: taking an
  id, collecting its comments (disabled comments included), the bookkeeping, and the
  handler that puts the buffered id back after an HttpError.
\<close>

theorem frontier_sets_stay_exclusive:
  assumes "frontier_inv ids yt"
      and "crawl_steps ext channel moves (yt, env) = Some (yt1, env1)"
  shows "frontier_inv ids yt1"
  using crawl_steps_keep_frontier [of ids "(yt, env)" ext channel moves "(yt1, env1)"] assms
  by simp

theorem frontier_sets_stay_exclusive_witness:
  "\<exists>yt1 env1.
     frontier_inv [''v1'', ''v2'', ''v3''] (ready_collector [''v1'', ''v2'', ''v3'']) \<and>
     crawl_steps (example_external (refuse_one ''v2'' ''commentsDisabled'') no_channel) ''channel''
        [Take, Collect, Bookkeep, Take, Collect]
        (ready_collector [''v1'', ''v2'', ''v3''], empty_env ()) = Some (yt1, env1) \<and>
     frontier_inv [''v1'', ''v2'', ''v3''] yt1 \<and>
     videos_ids_to_collect yt1 = Some [''v1''] \<and> temp_id_storage yt1 = Some [''v2''] \<and>
     collected_video_ids yt1 = Some [''v3''] \<and>
     videos_with_comments_disabled yt1 = Some [''v2'']"
proof -
  let ?ext = "example_external (refuse_one ''v2'' ''commentsDisabled'') no_channel"
  have start: "frontier_inv [''v1'', ''v2'', ''v3''] (ready_collector [''v1'', ''v2'', ''v3''])"
    by (simp add: frontier_inv_def ready_collector_def new_yt_entity_data_def)
  have "\<exists>yt1 env1. crawl_steps ?ext ''channel'' [Take, Collect, Bookkeep, Take, Collect]
        (ready_collector [''v1'', ''v2'', ''v3''], empty_env ()) = Some (yt1, env1) \<and>
     videos_ids_to_collect yt1 = Some [''v1''] \<and> temp_id_storage yt1 = Some [''v2''] \<and>
     collected_video_ids yt1 = Some [''v3''] \<and> videos_with_comments_disabled yt1 = Some [''v2'']"
    by (simp add: crawl_step_def crawl_eval)
  then obtain yt1 env1 where
    run: "crawl_steps ?ext ''channel'' [Take, Collect, Bookkeep, Take, Collect]
        (ready_collector [''v1'', ''v2'', ''v3''], empty_env ()) = Some (yt1, env1)"
    and sets: "videos_ids_to_collect yt1 = Some [''v1'']" "temp_id_storage yt1 = Some [''v2'']"
     "collected_video_ids yt1 = Some [''v3'']" "videos_with_comments_disabled yt1 = Some [''v2'']"
    by blast
  from frontier_sets_stay_exclusive [OF start run] start run sets show ?thesis by blast
qed

text \<open>
  The list of videos with disabled comments is not a fourth exclusive set: a crawl over
  the single video \<open>v1\<close>, whose comments are disabled, ends with \<open>v1\<close> both in
  \<^verbatim>\<open>videos_with_comments_disabled\<close> and in \<^verbatim>\<open>collected_video_ids\<close>.
\<close>

theorem disabled_video_is_also_collected_counterexample:
  "\<exists>yt1 env1.
     collect_comments (example_external (refuse_all ''commentsDisabled'') no_channel) ''channel''
        (ready_collector [''v1'']) (empty_env ()) = Some (Inr (Some ()), yt1, env1) \<and>
     videos_with_comments_disabled yt1 = Some [''v1''] \<and>
     collected_video_ids yt1 = Some [''v1'']"
  by (simp add: crawl_eval)

subsection \<open>Flushes of the comment loop\<close>


lemma writes_to_append [simp]: "writes_to file (xs @ ys) = writes_to file xs @ writes_to file ys"
  by (simp add: writes_to_def)

lemma writes_to_Nil [simp]: "writes_to file [] = []"
  by (simp add: writes_to_def)

lemma writes_to_Cons [simp]:
  "writes_to file ((f, p) # xs) = (if f = file then p # writes_to file xs else writes_to file xs)"
  by (simp add: writes_to_def)





























text \<open>The same on one video: a flush with the counter at 0 and the last one at 1.\<close>

lemma one_video_flushes_twice:
  "\<exists>yt1 env1.
     collect_comments quiet_api ''channel'' (ready_collector [''v1'']) (empty_env ()) =
       Some (Inr (Some ()), yt1, env1) \<and>
     printed env1 = [Msg_Comments_Collected (Some 0) 1 ''channel'',
                     Msg_Comments_Collected (Some 1) 1 ''channel'']"
  by (simp add: crawl_eval quiet_api_def)

section \<open>Channels without an upload playlist\<close>

text \<open>
  Claim C9. When the channel's response has no upload playlist, so that
  \<^verbatim>\<open>get_upload_playlist_id\<close> raises KeyError, \<^verbatim>\<open>collect_data_channel\<close> returns
  normally: the KeyError passes the retry wrapper (which catches HttpError only) and is
  caught and reported. The state it leaves is the one after the channel request plus the
  printed line, whatever the phases for videos and comments would do: they do not run.
  The loop over the channels goes on with the remaining channels from that state.
\<close>

theorem channel_without_upload_playlist_is_skipped:
  assumes known: "map_of (channels yt) channel = Some channel_id"
      and response: "channels_list ext channel_id (world env) = (Inr response, w)"
      and no_playlist: "get_upload_playlist_id response = Inl (KeyError missing_key)"
  shows "collect_data_channel ext channel yt env =
           Some (Inr (), yt\<lparr>channel_response := Some response\<rparr>,
                 env\<lparr>world := w,
                     printed := printed env @ [Msg_No_Upload_Playlist channel]\<rparr>) \<and>
         collect_data_channels_loop ext (channel # rest) yt env =
           collect_data_channels_loop ext rest (yt\<lparr>channel_response := Some response\<rparr>)
             (env\<lparr>world := w,
                  printed := printed env @
                    [Msg_Rule, Msg_Collecting channel, Msg_No_Upload_Playlist channel,
                     Msg_Done, Msg_Rule]\<rparr>)"
proof -
  have one: "collect_data_channel ext channel yt env' =
           Some (Inr (), yt\<lparr>channel_response := Some response\<rparr>,
                 env'\<lparr>world := w,
                     printed := printed env' @ [Msg_No_Upload_Playlist channel]\<rparr>)"
    if "world env' = world env" for env'
    using known response no_playlist that
    by (simp add: collect_data_channel_def collect_upload_playlist_def error_api_method_def
        error_api_method_loop.simps [of _ 0] RETRY_TIMES_def
        collect_upload_playlist_body_def search_channel_id_def)
  from one [of env] have first: "collect_data_channel ext channel yt env =
           Some (Inr (), yt\<lparr>channel_response := Some response\<rparr>,
                 env\<lparr>world := w,
                     printed := printed env @ [Msg_No_Upload_Playlist channel]\<rparr>)"
    by simp
  from one [of "env\<lparr>printed := printed env @ [Msg_Rule, Msg_Collecting channel]\<rparr>"]
  have "collect_data_channels_loop ext (channel # rest) yt env =
           collect_data_channels_loop ext rest (yt\<lparr>channel_response := Some response\<rparr>)
             (env\<lparr>world := w,
                  printed := printed env @
                    [Msg_Rule, Msg_Collecting channel, Msg_No_Upload_Playlist channel,
                     Msg_Done, Msg_Rule]\<rparr>)"
    by simp
  with first show ?thesis by simp
qed

text \<open>
  An instance: two channels, neither of which exists for the API; both are reported and
  skipped, and the run ends normally.
\<close>

theorem channel_without_upload_playlist_is_skipped_witness:
  "map_of (channels (new_yt_entity_data ''key'' [(''a'', ''UCa''), (''b'', ''UCb'')])) ''a'' =
      Some ''UCa'' \<and>
   channels_list (example_external (refuse_all ''x'') no_channel) ''UCa'' (world (empty_env ())) =
      (Inr no_channel, ()) \<and>
   get_upload_playlist_id no_channel = Inl (KeyError ''items'') \<and>
   collect_data_channels (example_external (refuse_all ''x'') no_channel)
      (new_yt_entity_data ''key'' [(''a'', ''UCa''), (''b'', ''UCb'')]) (empty_env ()) =
     Some (Inr (),
           (new_yt_entity_data ''key'' [(''a'', ''UCa''), (''b'', ''UCb'')])
             \<lparr>channel_response := Some no_channel\<rparr>,
           (empty_env ())
             \<lparr>printed :=
                [Msg_Rule, Msg_Collecting ''a'', Msg_No_Upload_Playlist ''a'', Msg_Done, Msg_Rule,
                 Msg_Rule, Msg_Collecting ''b'', Msg_No_Upload_Playlist ''b'', Msg_Done,
                 Msg_Rule]\<rparr>)"
proof -
  let ?ext = "example_external (refuse_all ''x'') no_channel"
  let ?yt = "new_yt_entity_data ''key'' [(''a'', ''UCa''), (''b'', ''UCb'')]"
  have known: "map_of (channels ?yt) ''a'' = Some ''UCa''"
    by (simp add: new_yt_entity_data_def)
  have response: "channels_list ?ext ''UCa'' (world (empty_env ())) = (Inr no_channel, ())"
    by (simp add: example_external_def)
  have no_playlist: "get_upload_playlist_id no_channel = Inl (KeyError ''items'')"
    by (simp add: get_upload_playlist_id_def no_channel_def)
  have known_b: "map_of (channels (?yt\<lparr>channel_response := Some no_channel\<rparr>)) ''b'' = Some ''UCb''"
    by (simp add: new_yt_entity_data_def)
  have response_b: "channels_list ?ext ''UCb'' (world e) = (Inr no_channel, ())" for e :: "unit env"
    by (simp add: example_external_def)
  have first: "collect_data_channels_loop ?ext [''a'', ''b''] ?yt (empty_env ()) =
      collect_data_channels_loop ?ext [''b''] (?yt\<lparr>channel_response := Some no_channel\<rparr>)
        ((empty_env ())\<lparr>world := (),
           printed := printed (empty_env ()) @
             [Msg_Rule, Msg_Collecting ''a'', Msg_No_Upload_Playlist ''a'', Msg_Done, Msg_Rule]\<rparr>)"
    by (rule channel_without_upload_playlist_is_skipped
        [OF known response no_playlist, THEN conjunct2])
  have second: "collect_data_channels_loop ?ext [''b'']
        (?yt\<lparr>channel_response := Some no_channel\<rparr>) e =
      collect_data_channels_loop ?ext []
        (?yt\<lparr>channel_response := Some no_channel, channel_response := Some no_channel\<rparr>)
        (e\<lparr>world := (),
           printed := printed e @
             [Msg_Rule, Msg_Collecting ''b'', Msg_No_Upload_Playlist ''b'', Msg_Done, Msg_Rule]\<rparr>)"
    for e :: "unit env"
    by (rule channel_without_upload_playlist_is_skipped
        [OF known_b response_b no_playlist, THEN conjunct2])
  have "collect_data_channels ?ext ?yt (empty_env ()) =
     Some (Inr (), ?yt\<lparr>channel_response := Some no_channel\<rparr>,
           (empty_env ())
             \<lparr>printed :=
                [Msg_Rule, Msg_Collecting ''a'', Msg_No_Upload_Playlist ''a'', Msg_Done, Msg_Rule,
                 Msg_Rule, Msg_Collecting ''b'', Msg_No_Upload_Playlist ''b'', Msg_Done,
                 Msg_Rule]\<rparr>)"
  proof -
    have "collect_data_channels ?ext ?yt (empty_env ()) =
        collect_data_channels_loop ?ext [''a'', ''b''] ?yt (empty_env ())"
      by (simp add: collect_data_channels_def new_yt_entity_data_def)
    also note first
    also note second
    finally show ?thesis by (simp add: empty_env_def)
  qed
  with known response no_playlist show ?thesis by simp
qed

section \<open>The restore\<close>

text \<open>
  Of the attributes that \<^verbatim>\<open>restore_responses\<close> and \<^verbatim>\<open>restore_dfs\<close> set, the
  rebuilt work list depends on two: the top-level comments and the merged table.
\<close>

lemma set_attribute_other:
  "set_attribute attr_name file yt = Inr yt1 \<Longrightarrow> attr_name \<noteq> ''responses_toplevel'' \<Longrightarrow>
     responses_toplevel yt1 = responses_toplevel yt"
  by (auto simp: set_attribute_def split: if_splits option.splits file_content.splits pickle.splits)

lemma set_attribute_toplevel:
  "set_attribute ''responses_toplevel'' file yt = Inr yt1 \<Longrightarrow>
     (file = None \<and> responses_toplevel yt1 = None) \<or>
     (\<exists>data. file = Some (Pickled (Pickle_Comments data)) \<and> responses_toplevel yt1 = Some data)"
  by (auto simp: set_attribute_def split: if_splits option.splits file_content.splits pickle.splits)

lemma set_attribute_other_df:
  "set_attribute attr_name file yt = Inr yt1 \<Longrightarrow> attr_name \<noteq> ''df_m'' \<Longrightarrow>
     df_m yt1 = df_m yt"
  by (auto simp: set_attribute_def split: if_splits option.splits file_content.splits pickle.splits)

lemma set_attribute_df_m:
  "set_attribute ''df_m'' file yt = Inr yt1 \<Longrightarrow>
     (file = None \<and> df_m yt1 = None) \<or>
     (\<exists>df. file = Some (Parquet df) \<and> df_m yt1 = Some df)"
  by (auto simp: set_attribute_def split: if_splits option.splits file_content.splits pickle.splits)

lemma restore_responses_toplevel:
  assumes "restore_responses ext env channel date yt = (Inr (), yt1)"
  shows "\<exists>file. read_file ext env (''raw/'' @ channel) (toplevel_pattern channel date) False = Inr file \<and>
           ((file = None \<and> responses_toplevel yt1 = None) \<or>
            (\<exists>data. file = Some (Pickled (Pickle_Comments data)) \<and>
               responses_toplevel yt1 = Some data))"
proof -
  from assms obtain f1 f2 f3 f4 f5 y1 y2 y3 y4 where
    "set_attribute ''upload_responses'' f1 yt = Inr y1"
    "set_attribute ''videos_responses'' f2 y1 = Inr y2"
    and r3: "read_file ext env (''raw/'' @ channel) (channel @ ''*'' @ ''toplevel'' @ ''*'' @ date) False = Inr f3"
    and s3: "set_attribute ''responses_toplevel'' f3 y2 = Inr y3"
    and s4: "set_attribute ''responses_replies'' f4 y3 = Inr y4"
    and s5: "set_attribute ''videos_with_comments_disabled'' f5 y4 = Inr yt1"
    by (auto simp: restore_responses_def split: sum.splits)
  from set_attribute_other [OF s5] set_attribute_other [OF s4]
  have "responses_toplevel yt1 = responses_toplevel y3" by simp
  with set_attribute_toplevel [OF s3] r3 show ?thesis
    by (auto simp: toplevel_pattern_def)
qed

lemma restore_dfs_df_m:
  assumes "restore_dfs ext env channel yt = (Inr (), yt1)"
  shows "responses_toplevel yt1 = responses_toplevel yt \<and>
         (\<exists>file. read_file ext env (''proc/'' @ channel) ''video'' True = Inr file \<and>
           ((file = None \<and> df_m yt1 = None) \<or>
            (\<exists>df. file = Some (Parquet df) \<and> df_m yt1 = Some df)))"
proof -
  from assms obtain f1 f2 y1 where
    s1: "set_attribute ''df_upload_playlist'' f1 yt = Inr y1"
    and r2: "read_file ext env (''proc/'' @ channel) ''video'' True = Inr f2"
    and s2: "set_attribute ''df_m'' f2 y1 = Inr yt1"
    by (auto simp: restore_dfs_def split: sum.splits)
  from set_attribute_other [OF s1] set_attribute_other [OF s2]
  have "responses_toplevel yt1 = responses_toplevel yt" by simp
  with set_attribute_df_m [OF s2] r2 show ?thesis by auto
qed

lemma read_file_pickled:
  "read_file ext env folder name False = Inr (Some (Pickled data)) \<Longrightarrow>
     \<exists>file. get_file ext env folder name = Inr file \<and> load_pickle_file env file = Some data"
  by (auto simp: read_file_def split: sum.splits exn.splits option.splits)

lemma read_file_parquet:
  "read_file ext env folder name True = Inr (Some (Parquet df)) \<Longrightarrow>
     \<exists>file. get_file ext env folder name = Inr file \<and> proc_files env file = Some df"
  by (auto simp: read_file_def split: sum.splits exn.splits option.splits)

lemma restore_success:
  assumes ok: "restore_obj_from_checkpoint ext channel date yt env = (Inr (), yt1, env1)"
  shows "\<exists>toplevel df toplevel_file df_file.
           get_file ext env (''raw/'' @ channel) (toplevel_pattern channel date) = Inr toplevel_file \<and>
           load_pickle_file env toplevel_file = Some (Pickle_Comments toplevel) \<and>
           get_file ext env (''proc/'' @ channel) ''video'' = Inr df_file \<and>
           proc_files env df_file = Some df \<and>
           responses_toplevel yt1 = Some toplevel \<and> df_m yt1 = Some df \<and>
           video_ids yt1 = Some (rev (video_ids_column df)) \<and>
           collected_video_ids yt1 = Some (map fst toplevel) \<and>
           videos_ids_to_collect yt1 =
             Some (filter (\<lambda>video_id. video_id \<notin> set (map fst toplevel))
                     (rev (video_ids_column df))) \<and>
           yt_i yt1 = Some (int (length toplevel)) \<and>
           temp_id_storage yt1 = Some []"
proof -
  from ok obtain y1 y2 where r1: "restore_responses ext env channel date yt = (Inr (), y1)"
    and r2: "restore_dfs ext env channel y1 = (Inr (), y2)"
    and h: "handle_collected_comments y2 env = (Inr (), yt1, env1)"
    by (auto simp: restore_obj_from_checkpoint_def split: prod.splits sum.splits)
  from h obtain df toplevel where y2: "df_m y2 = Some df" "responses_toplevel y2 = Some toplevel"
    and yt1: "yt1 = y2\<lparr>video_ids := Some (rev (video_ids_column df)),
                    collected_video_ids := Some (map fst toplevel),
                    videos_ids_to_collect :=
                      Some (filter (\<lambda>video_id. video_id \<notin> set (map fst toplevel))
                              (rev (video_ids_column df))),
                    yt_i := Some (int (length (map fst toplevel))),
                    temp_id_storage := Some []\<rparr>"
    by (auto simp: handle_collected_comments_def split: option.splits)
  from restore_dfs_df_m [OF r2] y2 have top1: "responses_toplevel y1 = Some toplevel"
    and "read_file ext env (''proc/'' @ channel) ''video'' True = Inr (Some (Parquet df))"
    by auto
  from read_file_parquet [OF this(2)] obtain df_file where
    df: "get_file ext env (''proc/'' @ channel) ''video'' = Inr df_file"
        "proc_files env df_file = Some df"
    by blast
  from restore_responses_toplevel [OF r1] top1
  have "read_file ext env (''raw/'' @ channel) (toplevel_pattern channel date) False =
          Inr (Some (Pickled (Pickle_Comments toplevel)))"
    by auto
  from read_file_pickled [OF this] obtain toplevel_file where
    top: "get_file ext env (''raw/'' @ channel) (toplevel_pattern channel date) = Inr toplevel_file"
         "load_pickle_file env toplevel_file = Some (Pickle_Comments toplevel)"
    by blast
  from top df y2 yt1 show ?thesis by simp
qed

text \<open>
  Claim C8. After a restore that returned, the collected ids are the keys of the
  top-level checkpoint that was found and loaded, in their order; the work list is the
  reversed id column of the merged table without the collected ids, the order of the
  others kept; and the buffer is the empty list.
\<close>

theorem restore_rebuilds_frontier:
  assumes "restore_obj_from_checkpoint ext channel date yt env = (Inr (), yt1, env1)"
  shows "\<exists>toplevel_file toplevel df.
           get_file ext env (''raw/'' @ channel) (toplevel_pattern channel date) =
             Inr toplevel_file \<and>
           load_pickle_file env toplevel_file = Some (Pickle_Comments toplevel) \<and>
           df_m yt1 = Some df \<and>
           collected_video_ids yt1 = Some (map fst toplevel) \<and>
           videos_ids_to_collect yt1 =
             Some (filter (\<lambda>video_id. video_id \<notin> set (map fst toplevel))
                     (rev (video_ids_column df))) \<and>
           temp_id_storage yt1 = Some []"
  using restore_success [OF assms] by blast

lemmas restore_eval =
  restore_obj_from_checkpoint_def restore_responses_def restore_dfs_def read_file_def
  get_file_def set_attribute_def handle_collected_comments_def load_pickle_file_def
  toplevel_pattern_def disk_external_def disk_env_def example_external_def empty_env_def
  example_df_file_def example_toplevel_file_def new_yt_entity_data_def

text \<open>
  An instance: the table lists v3, v2, v1 and the checkpoint holds v2; the restore leaves
  v2 collected and v1, v3 to collect.
\<close>

theorem restore_rebuilds_frontier_witness:
  "\<exists>yt1 env1.
     restore_obj_from_checkpoint (disk_external True) ''channel'' ''2022-06-01''
        (new_yt_entity_data ''key'' [(''channel'', ''UC1'')]) disk_env = (Inr (), yt1, env1) \<and>
     collected_video_ids yt1 = Some [''v2''] \<and>
     videos_ids_to_collect yt1 = Some [''v1'', ''v3''] \<and>
     temp_id_storage yt1 = Some [] \<and>
     (\<exists>toplevel_file toplevel df.
        get_file (disk_external True) disk_env (''raw/'' @ ''channel'')
            (toplevel_pattern ''channel'' ''2022-06-01'') = Inr toplevel_file \<and>
        load_pickle_file disk_env toplevel_file = Some (Pickle_Comments toplevel) \<and>
        df_m yt1 = Some df \<and>
        collected_video_ids yt1 = Some (map fst toplevel) \<and>
        videos_ids_to_collect yt1 =
          Some (filter (\<lambda>video_id. video_id \<notin> set (map fst toplevel))
                  (rev (video_ids_column df))) \<and>
        temp_id_storage yt1 = Some [])"
proof -
  obtain yt1 env1 where ok: "restore_obj_from_checkpoint (disk_external True) ''channel''
        ''2022-06-01'' (new_yt_entity_data ''key'' [(''channel'', ''UC1'')]) disk_env =
       (Inr (), yt1, env1)"
    and restored: "collected_video_ids yt1 = Some [''v2'']"
      "videos_ids_to_collect yt1 = Some [''v1'', ''v3'']"
      "temp_id_storage yt1 = Some []"
    by (simp add: restore_eval)
  from restore_rebuilds_frontier [OF ok] ok restored show ?thesis by blast
qed

text \<open>
  Claim C10. When no file matches the pattern of the top-level comments,
  \<^verbatim>\<open>read_file\<close> returns \<^verbatim>\<open>None\<close>, and the restore does not return: if the
  reading of the other files goes through, the attribute is \<^verbatim>\<open>None\<close> when
  \<^verbatim>\<open>handle_collected_comments\<close> takes its keys, which raises AttributeError. A
  restore that returns has found and loaded both the top-level checkpoint and the merged
  video table.
\<close>

theorem restore_requires_checkpoint_files:
  "(glob ext env (''raw/'' @ channel) (''*'' @ toplevel_pattern channel date @ ''*'') = [] \<longrightarrow>
      read_file ext env (''raw/'' @ channel) (toplevel_pattern channel date) False = Inr None \<and>
      fst (restore_obj_from_checkpoint ext channel date yt env) \<noteq> Inr () \<and>
      (\<forall>y1 y2. restore_responses ext env channel date yt = (Inr (), y1) \<longrightarrow>
         restore_dfs ext env channel y1 = (Inr (), y2) \<longrightarrow>
         responses_toplevel y2 = None \<and>
         fst (restore_obj_from_checkpoint ext channel date yt env) = Inl AttributeError)) \<and>
   (fst (restore_obj_from_checkpoint ext channel date yt env) = Inr () \<longrightarrow>
      (\<exists>toplevel_file toplevel.
         get_file ext env (''raw/'' @ channel) (toplevel_pattern channel date) =
           Inr toplevel_file \<and>
         load_pickle_file env toplevel_file = Some (Pickle_Comments toplevel)) \<and>
      (\<exists>df_file df.
         get_file ext env (''proc/'' @ channel) ''video'' = Inr df_file \<and>
         proc_files env df_file = Some df))"
proof (intro conjI impI)
  assume none: "glob ext env (''raw/'' @ channel) (''*'' @ toplevel_pattern channel date @ ''*'') = []"
  then show read: "read_file ext env (''raw/'' @ channel) (toplevel_pattern channel date) False =
      Inr None"
    by (simp add: read_file_def get_file_def)
  have after: "responses_toplevel y2 = None \<and>
         fst (restore_obj_from_checkpoint ext channel date yt env) = Inl AttributeError"
    if r1: "restore_responses ext env channel date yt = (Inr (), y1)"
      and r2: "restore_dfs ext env channel y1 = (Inr (), y2)" for y1 y2
  proof -
    from restore_responses_toplevel [OF r1] read have "responses_toplevel y1 = None" by auto
    with restore_dfs_df_m [OF r2] have "responses_toplevel y2 = None" by simp
    then show ?thesis using r1 r2
      by (simp add: restore_obj_from_checkpoint_def handle_collected_comments_def
          split: option.splits)
  qed
  then show "\<forall>y1 y2. restore_responses ext env channel date yt = (Inr (), y1) \<longrightarrow>
         restore_dfs ext env channel y1 = (Inr (), y2) \<longrightarrow>
         responses_toplevel y2 = None \<and>
         fst (restore_obj_from_checkpoint ext channel date yt env) = Inl AttributeError"
    by blast
  show "fst (restore_obj_from_checkpoint ext channel date yt env) \<noteq> Inr ()"
  proof
    assume "fst (restore_obj_from_checkpoint ext channel date yt env) = Inr ()"
    then obtain yt1 env1 where
      "restore_obj_from_checkpoint ext channel date yt env = (Inr (), yt1, env1)"
      by (cases "restore_obj_from_checkpoint ext channel date yt env") auto
    from restore_success [OF this] read show False
      by (auto simp: read_file_def)
  qed
next
  assume "fst (restore_obj_from_checkpoint ext channel date yt env) = Inr ()"
  then obtain yt1 env1 where
    ok: "restore_obj_from_checkpoint ext channel date yt env = (Inr (), yt1, env1)"
    by (cases "restore_obj_from_checkpoint ext channel date yt env") auto
  from restore_success [OF ok]
  show "\<exists>toplevel_file toplevel.
         get_file ext env (''raw/'' @ channel) (toplevel_pattern channel date) =
           Inr toplevel_file \<and>
         load_pickle_file env toplevel_file = Some (Pickle_Comments toplevel)"
    by blast
  from restore_success [OF ok]
  show "\<exists>df_file df.
         get_file ext env (''proc/'' @ channel) ''video'' = Inr df_file \<and>
         proc_files env df_file = Some df"
    by blast
qed

text \<open>
  An instance: the same disk without and with the file of top-level comments; the first
  restore raises AttributeError, the second returns.
\<close>

theorem restore_requires_checkpoint_files_witness:
  "glob (disk_external False) disk_env (''raw/'' @ ''channel'')
      (''*'' @ toplevel_pattern ''channel'' ''2022-06-01'' @ ''*'') = [] \<and>
   read_file (disk_external False) disk_env (''raw/'' @ ''channel'')
      (toplevel_pattern ''channel'' ''2022-06-01'') False = Inr None \<and>
   fst (restore_obj_from_checkpoint (disk_external False) ''channel'' ''2022-06-01''
          (new_yt_entity_data ''key'' [(''channel'', ''UC1'')]) disk_env) = Inl AttributeError \<and>
   fst (restore_obj_from_checkpoint (disk_external True) ''channel'' ''2022-06-01''
          (new_yt_entity_data ''key'' [(''channel'', ''UC1'')]) disk_env) = Inr () \<and>
   (\<exists>toplevel_file toplevel.
      get_file (disk_external True) disk_env (''raw/'' @ ''channel'')
          (toplevel_pattern ''channel'' ''2022-06-01'') = Inr toplevel_file \<and>
      load_pickle_file disk_env toplevel_file = Some (Pickle_Comments toplevel)) \<and>
   (\<exists>df_file df.
      get_file (disk_external True) disk_env (''proc/'' @ ''channel'') ''video'' = Inr df_file \<and>
      proc_files disk_env df_file = Some df)"
proof -
  let ?yt = "new_yt_entity_data ''key'' [(''channel'', ''UC1'')]"
  have none: "glob (disk_external False) disk_env (''raw/'' @ ''channel'')
      (''*'' @ toplevel_pattern ''channel'' ''2022-06-01'' @ ''*'') = []"
    by (simp add: restore_eval)
  obtain y1 y2 where r1: "restore_responses (disk_external False) disk_env ''channel''
       ''2022-06-01'' ?yt = (Inr (), y1)"
    and r2: "restore_dfs (disk_external False) disk_env ''channel'' y1 = (Inr (), y2)"
    by (simp add: restore_eval)
  have ok: "fst (restore_obj_from_checkpoint (disk_external True) ''channel'' ''2022-06-01''
          ?yt disk_env) = Inr ()"
    by (simp add: restore_eval)
  note thm_false = restore_requires_checkpoint_files
    [where ext = "disk_external False" and env = disk_env and channel = "''channel''"
       and date = "''2022-06-01''" and yt = ?yt, THEN conjunct1, rule_format, OF none]
  note thm_true = restore_requires_checkpoint_files
    [where ext = "disk_external True" and env = disk_env and channel = "''channel''"
       and date = "''2022-06-01''" and yt = ?yt, THEN conjunct2, rule_format, OF ok]
  from thm_false have read: "read_file (disk_external False) disk_env (''raw/'' @ ''channel'')
      (toplevel_pattern ''channel'' ''2022-06-01'') False = Inr None"
    by simp
  from thm_false r1 r2
  have raised: "fst (restore_obj_from_checkpoint (disk_external False) ''channel'' ''2022-06-01''
          ?yt disk_env) = Inl AttributeError"
    by blast
  from none read raised ok thm_true show ?thesis by blast
qed

end
